theory Spec2Isabelle
  imports Complex_Main "HOL-Library.Sublist"
begin

section \<open>Values, price bars and series\<close>

text \<open>
  The computation pipeline of the dashboard: indicators, signal classification, the two
  portfolio simulators, the forecaster and the insights route.

  A field of a price bar is a JavaScript value: a finite number, \<open>null\<close>, \<open>undefined\<close>
  (the field is missing) or \<open>NaN\<close> (a number that is not one).  \<open>Number\<close> of such a
  value is a finite number or \<open>NaN\<close>; it is a \<open>real option\<close> with \<open>None\<close> for \<open>NaN\<close>.
  Inside the indicators every value is a number or \<open>null\<close>, again a \<open>real option\<close>, with
  \<open>None\<close> for \<open>null\<close>.

  Arithmetic on finite numbers is exact, except in \<open>runSimulation\<close>, whose every
  operation is followed by a rounding function: the identity gives exact arithmetic,
  \<open>binary64\<close> the doubles the source computes with.  The infinities have no
  counterpart.  Where the source would produce one, or a \<open>NaN\<close>, by a division by zero
  or by \<open>Math.max()\<close> of nothing, the value of the model is whatever HOL assigns
  (\<open>x / 0 = 0\<close>); this happens only for a window of 0, a close of 0 in the graduated
  simulator and a capital of 0 in the summary, and no theorem below rests on such a
  value.  Window parameters and periods are natural numbers.

  A date is a day number counted from the epoch.  \<open>Date\<close> holds the days from
  \<open>-100,000,000\<close> to \<open>100,000,000\<close>; a day number outside this range stands for any value
  that \<open>new Date\<close> turns into an Invalid Date.
\<close>

datatype jsval = JNum real | JNull | JUndefined | JNaN

record bar =
  date :: int
  opn :: jsval
  high :: jsval
  low :: jsval
  close :: jsval
  volume :: jsval

text \<open>\<open>Number(v)\<close> on a field: \<open>Number(null)\<close> is 0, \<open>Number(undefined)\<close> is \<open>NaN\<close>.
  \<open>None\<close> is \<open>NaN\<close>.\<close>

definition Number_raw :: "jsval \<Rightarrow> real option" where
  "Number_raw v = (case v of JNum x \<Rightarrow> Some x | JNull \<Rightarrow> Some 0 | JUndefined \<Rightarrow> None | JNaN \<Rightarrow> None)"

text \<open>The coercion of a number or \<open>null\<close> wherever it meets an arithmetic operator or
  \<open>Math.max\<close>: \<open>null\<close> counts as 0.\<close>

definition Number_js :: "real option \<Rightarrow> real" where
  "Number_js v = (case v of None \<Rightarrow> 0 | Some x \<Rightarrow> x)"

record simpoint =
  sp_date :: int
  sp_value :: real

section \<open>Indicator helpers (indicators.js)\<close>

text \<open>\<open>toNumber\<close> parses with \<open>Number\<close> and answers \<open>null\<close> for a result that is not
  finite: \<open>Number.isFinite(parsed) ? parsed : null\<close>.  The \<open>None\<close> of the result is
  \<open>null\<close>.\<close>

definition toNumber :: "jsval \<Rightarrow> real option" where
  "toNumber v = (case Number_raw v of Some parsed \<Rightarrow> Some parsed | None \<Rightarrow> None)"

definition getClose :: "bar \<Rightarrow> real option" where
  "getClose row = toNumber (close row)"

definition getHigh :: "bar \<Rightarrow> real option" where
  "getHigh row = toNumber (high row)"

definition getLow :: "bar \<Rightarrow> real option" where
  "getLow row = toNumber (low row)"

definition getVolume :: "bar \<Rightarrow> real option" where
  "getVolume row = toNumber (volume row)"

text \<open>The loop of \<open>ema\<close>, with the running \<open>previous\<close> as an argument: a \<open>null\<close> input
  repeats \<open>previous\<close>, the first number seeds it.\<close>

fun ema_loop :: "real \<Rightarrow> real option \<Rightarrow> real option list \<Rightarrow> real option list" where
  "ema_loop multiplier previous [] = []"
| "ema_loop multiplier previous (None # vs) = previous # ema_loop multiplier previous vs"
| "ema_loop multiplier previous (Some v # vs) =
     (let previous' = (case previous of None \<Rightarrow> v | Some p \<Rightarrow> (v - p) * multiplier + p)
      in Some previous' # ema_loop multiplier (Some previous') vs)"

definition ema :: "real option list \<Rightarrow> nat \<Rightarrow> real option list" where
  "ema vs period = ema_loop (2 / (real period + 1)) None vs"

text \<open>\<open>values.slice(a, b)\<close> for \<open>0 \<le> a\<close>.\<close>

definition slice :: "'a list \<Rightarrow> nat \<Rightarrow> nat \<Rightarrow> 'a list" where
  "slice xs a b = take (b - a) (drop a xs)"

definition rolling ::
  "real option list \<Rightarrow> nat \<Rightarrow> (real option list \<Rightarrow> nat \<Rightarrow> real) \<Rightarrow> real option list" where
  "rolling vs window reducer =
     map (\<lambda>i. if i + 1 < window then None
               else Some (reducer (slice vs (i + 1 - window) (i + 1)) i))
         [0..<length vs]"

text \<open>The reducer shared by \<open>calculateSMA\<close> and the \<open>%D\<close> line:
  \<open>slice.reduce((acc, value) => acc + value, 0) / slice.length\<close>; a \<open>null\<close> entry adds 0.\<close>

definition meanReducer :: "real option list \<Rightarrow> nat \<Rightarrow> real" where
  "meanReducer sl i = foldl (\<lambda>acc v. acc + Number_js v) 0 sl / real (length sl)"

definition calculateSMA :: "bar list \<Rightarrow> nat \<Rightarrow> real option list" where
  "calculateSMA points window = rolling (map getClose points) window meanReducer"

text \<open>One pass of the \<open>calculateRSI\<close> loop body at index \<open>i\<close>, on the state
  \<open>(gainAvg, lossAvg, result)\<close>.\<close>

definition rsi_step ::
  "real option list \<Rightarrow> nat \<Rightarrow> real \<times> real \<times> real option list \<Rightarrow> nat
     \<Rightarrow> real \<times> real \<times> real option list" where
  "rsi_step closes window st i =
     (case st of (gainAvg, lossAvg, result) \<Rightarrow>
        let change = Number_js (closes ! i) - Number_js (closes ! (i - 1));
            gain = (if change > 0 then change else 0);
            loss = (if change < 0 then - change else 0)
        in if i \<le> window then
             let gainAvg1 = gainAvg + gain;
                 lossAvg1 = lossAvg + loss
             in if i = window then
                  let gainAvg2 = gainAvg1 / real window;
                      lossAvg2 = lossAvg1 / real window;
                      rs = (if lossAvg2 = 0 then 100 else gainAvg2 / lossAvg2)
                  in (gainAvg2, lossAvg2, result[i := Some (100 - 100 / (1 + rs))])
                else (gainAvg1, lossAvg1, result)
           else
             let gainAvg1 = (gainAvg * (real window - 1) + gain) / real window;
                 lossAvg1 = (lossAvg * (real window - 1) + loss) / real window;
                 rs = (if lossAvg1 = 0 then 100 else gainAvg1 / lossAvg1)
             in (gainAvg1, lossAvg1, result[i := Some (100 - 100 / (1 + rs))]))"

definition calculateRSI :: "bar list \<Rightarrow> nat \<Rightarrow> real option list" where
  "calculateRSI points window =
     (let closes = map getClose points;
          result = replicate (length points) None
      in snd (snd (foldl (rsi_step closes window) (0, 0, result) [1..<length closes])))"

record macd_result =
  macd :: "real option list"
  macd_signal :: "real option list"

definition calculateMACD :: "bar list \<Rightarrow> nat \<Rightarrow> nat \<Rightarrow> nat \<Rightarrow> macd_result" where
  "calculateMACD points shortWindow longWindow signalWindow =
     (let closes = map getClose points;
          expShort = ema closes shortWindow;
          expLong = ema closes longWindow;
          macdLine = map (\<lambda>index. case (expShort ! index, expLong ! index) of
                                     (Some v, Some l) \<Rightarrow> Some (v - l)
                                   | _ \<Rightarrow> None)
                         [0..<length expShort];
          signalLine = ema macdLine signalWindow
      in \<lparr>macd = macdLine, macd_signal = signalLine\<rparr>)"

record bands =
  middle :: "real option list"
  upper :: "real option list"
  lower :: "real option list"

text \<open>The band pair written at index \<open>i\<close> by the loop of \<open>calculateBollingerBands\<close>, or
  \<open>None\<close> where the loop skips the index.\<close>

definition bollinger_at ::
  "real option list \<Rightarrow> real option list \<Rightarrow> nat \<Rightarrow> real \<Rightarrow> nat \<Rightarrow> (real \<times> real) option" where
  "bollinger_at closes sma window numStdDev i =
     (if i + 1 < window then None
      else case sma ! i of
             None \<Rightarrow> None
           | Some mean \<Rightarrow>
               let sl = slice closes (i + 1 - window) (i + 1);
                   variance = foldl (\<lambda>acc c. acc + (Number_js c - mean) ^ 2) 0 sl
                                / real (length sl);
                   stdDev = sqrt variance
               in Some (mean + stdDev * numStdDev, mean - stdDev * numStdDev))"

definition calculateBollingerBands :: "bar list \<Rightarrow> nat \<Rightarrow> real \<Rightarrow> bands" where
  "calculateBollingerBands points window numStdDev =
     (let closes = map getClose points;
          sma = calculateSMA points window;
          pairs = map (bollinger_at closes sma window numStdDev) [0..<length closes]
      in \<lparr>middle = sma,
          upper = map (map_option fst) pairs,
          lower = map (map_option snd) pairs\<rparr>)"

text \<open>\<open>Math.max(...xs)\<close> and \<open>Math.min(...xs)\<close> on a non-empty list (a \<open>null\<close> counts as 0).
  On the empty list JavaScript answers an infinity, which has no counterpart here; it
  arises only for a window of 0.\<close>

definition mathMax :: "real option list \<Rightarrow> real" where
  "mathMax xs = Max (set (map Number_js xs))"

definition mathMin :: "real option list \<Rightarrow> real" where
  "mathMin xs = Min (set (map Number_js xs))"

record stochastic_result =
  percentK :: "real option list"
  percentD :: "real option list"

text \<open>The locals \<open>rangeHigh\<close> and \<open>rangeLow\<close> of the \<open>%K\<close> loop at index \<open>i\<close>.\<close>

definition rangeHigh :: "real option list \<Rightarrow> nat \<Rightarrow> nat \<Rightarrow> real" where
  "rangeHigh highs kWindow i = mathMax (slice highs (i + 1 - kWindow) (i + 1))"

definition rangeLow :: "real option list \<Rightarrow> nat \<Rightarrow> nat \<Rightarrow> real" where
  "rangeLow lows kWindow i = mathMin (slice lows (i + 1 - kWindow) (i + 1))"

definition percentK_at ::
  "real option list \<Rightarrow> real option list \<Rightarrow> real option list \<Rightarrow> nat \<Rightarrow> nat \<Rightarrow> real option" where
  "percentK_at highs lows closes kWindow i =
     (if i + 1 < kWindow then None
      else let c = closes ! i
           in if rangeHigh highs kWindow i = rangeLow lows kWindow i then Some 0
              else Some ((Number_js c - rangeLow lows kWindow i)
                          / (rangeHigh highs kWindow i - rangeLow lows kWindow i) * 100))"

definition calculateStochasticOscillator :: "bar list \<Rightarrow> nat \<Rightarrow> nat \<Rightarrow> stochastic_result" where
  "calculateStochasticOscillator points kWindow dWindow =
     (let highs = map getHigh points;
          lows = map getLow points;
          closes = map getClose points;
          pK = map (percentK_at highs lows closes kWindow) [0..<length points];
          pD = rolling pK dWindow meanReducer
      in \<lparr>percentK = pK, percentD = pD\<rparr>)"

text \<open>The callback of \<open>points.forEach\<close> in \<open>calculateVWAP\<close>, on the state
  \<open>(cumulativeVolume, cumulativeTpv, result)\<close>.  \<open>!volume\<close> holds for \<open>null\<close> and for 0.\<close>

definition vwap_step ::
  "real \<times> real \<times> real option list \<Rightarrow> bar \<times> nat \<Rightarrow> real \<times> real \<times> real option list" where
  "vwap_step st ri =
     (case st of (cumulativeVolume, cumulativeTpv, result) \<Rightarrow>
      case ri of (row, index) \<Rightarrow>
        let vol = getVolume row
        in if vol = None \<or> vol = Some 0 then st
           else let typicalPrice =
                      (Number_js (getHigh row) + Number_js (getLow row) + Number_js (getClose row)) / 3;
                    cumulativeVolume' = cumulativeVolume + Number_js vol;
                    cumulativeTpv' = cumulativeTpv + typicalPrice * Number_js vol
                in (cumulativeVolume', cumulativeTpv',
                    result[index := (if cumulativeVolume' > 0
                                     then Some (cumulativeTpv' / cumulativeVolume') else None)]))"

definition calculateVWAP :: "bar list \<Rightarrow> real option list" where
  "calculateVWAP points =
     snd (snd (foldl vwap_step (0, 0, replicate (length points) None)
                     (zip points [0..<length points])))"

record adx_result =
  adx :: "real option list"
  plusDI :: "real option list"
  minusDI :: "real option list"

text \<open>What the first loop of \<open>calculateADX\<close> computes at index \<open>i \<ge> 1\<close>:
  \<open>(plusDM, minusDM, trueRange)\<close>.\<close>

definition movement_at :: "bar list \<Rightarrow> nat \<Rightarrow> real \<times> real \<times> real" where
  "movement_at points i =
     (let h = Number_js (getHigh (points ! i));
          l = Number_js (getLow (points ! i));
          prevClose = Number_js (getClose (points ! (i - 1)));
          prevHigh = Number_js (getHigh (points ! (i - 1)));
          prevLow = Number_js (getLow (points ! (i - 1)));
          upMove = h - prevHigh;
          downMove = prevLow - l;
          plusDM = (if upMove > downMove \<and> upMove > 0 then upMove else 0);
          minusDM = (if downMove > upMove \<and> downMove > 0 then downMove else 0);
          tr1 = h - l;
          tr2 = \<bar>h - prevClose\<bar>;
          tr3 = \<bar>l - prevClose\<bar>;
          trueRange = max tr1 (max tr2 tr3)
      in (plusDM, minusDM, trueRange))"

text \<open>What the second loop writes at index \<open>i\<close>: \<open>(pDI, mDI, directionalIndex)\<close>, or
  nothing where \<open>!trueRange\<close> (\<open>null\<close> or 0).  \<open>(pDI + mDI || 1)\<close> is 1 when the sum is 0.\<close>

definition directional_at ::
  "real option list \<Rightarrow> real option list \<Rightarrow> real option list \<Rightarrow> nat \<Rightarrow> (real \<times> real \<times> real) option" where
  "directional_at smoothedTR smoothedPlusDM smoothedMinusDM i =
     (case smoothedTR ! i of
        None \<Rightarrow> None
      | Some trueRange \<Rightarrow>
          if trueRange = 0 then None
          else let pDI = (Number_js (smoothedPlusDM ! i) / trueRange) * 100;
                   mDI = (Number_js (smoothedMinusDM ! i) / trueRange) * 100;
                   directionalIndex =
                     \<bar>pDI - mDI\<bar> / (if pDI + mDI = 0 then 1 else pDI + mDI) * 100
               in Some (pDI, mDI, directionalIndex))"

definition calculateADX :: "bar list \<Rightarrow> nat \<Rightarrow> adx_result" where
  "calculateADX points period =
     (let n = length points;
          moves = map (\<lambda>i. if i = 0 then None else Some (movement_at points i)) [0..<n];
          plusDMList = map (map_option fst) moves;
          minusDMList = map (map_option (fst \<circ> snd)) moves;
          trList = map (map_option (snd \<circ> snd)) moves;
          smoothedTR = ema trList period;
          smoothedPlusDM = ema plusDMList period;
          smoothedMinusDM = ema minusDMList period;
          dis = map (directional_at smoothedTR smoothedPlusDM smoothedMinusDM) [0..<n];
          dx = map (map_option (snd \<circ> snd)) dis
      in \<lparr>adx = ema dx period,
          plusDI = map (map_option fst) dis,
          minusDI = map (map_option (fst \<circ> snd)) dis\<rparr>)"

text \<open>\<open>Number.isFinite(bandwidth) ? bandwidth : null\<close>: for numbers \<open>upper\<close>, \<open>lower\<close> and
  \<open>middle\<close> the quotient is not finite exactly when \<open>middle\<close> is 0.\<close>

definition calculateBollingerBandwidth :: "bar list \<Rightarrow> nat \<Rightarrow> real \<Rightarrow> real option list" where
  "calculateBollingerBandwidth points window numStdDev =
     (let bs = calculateBollingerBands points window numStdDev
      in map (\<lambda>index. case (upper bs ! index, lower bs ! index, middle bs ! index) of
                          (Some upperBand, Some lo, Some mid) \<Rightarrow>
                            if mid = 0 then None else Some (((upperBand - lo) / mid) * 100)
                        | _ \<Rightarrow> None)
             [0..<length (upper bs)])"

text \<open>An entry \<open>{index, value}\<close> of the shifted Ichimoku spans.\<close>

record offset_entry =
  entry_index :: int
  entry_value :: "real option"

record ichimoku_result =
  conversionLine :: "real option list"
  baseLine :: "real option list"
  leadingSpanA :: "offset_entry option list"
  leadingSpanB :: "offset_entry list"
  laggingSpan :: "offset_entry list"

text \<open>The reducer of the Ichimoku lines over \<open>periods\<close> bars: the midpoint of the highest
  high and the lowest low of \<open>slice(index - (periods - 1), index + 1)\<close>.\<close>

definition midpoint :: "real option list \<Rightarrow> real option list \<Rightarrow> nat \<Rightarrow> real option list \<Rightarrow> nat \<Rightarrow> real" where
  "midpoint highs lows periods sl index =
     (mathMax (slice highs (index - (periods - 1)) (index + 1))
        + mathMin (slice lows (index - (periods - 1)) (index + 1))) / 2"

definition calculateIchimoku :: "bar list \<Rightarrow> ichimoku_result" where
  "calculateIchimoku points =
     (let highs = map getHigh points;
          lows = map getLow points;
          closes = map getClose points;
          conversion = rolling closes 9 (midpoint highs lows 9);
          base = rolling closes 26 (midpoint highs lows 26);
          spanA = map (\<lambda>index. case (conversion ! index, base ! index) of
                                  (Some v, Some b) \<Rightarrow>
                                    Some \<lparr>entry_index = int index + 26,
                                          entry_value = Some ((v + b) / 2)\<rparr>
                                | _ \<Rightarrow> None)
                      [0..<length conversion];
          spanB = map (\<lambda>(v, index). \<lparr>entry_index = int index + 26, entry_value = v\<rparr>)
                      (zip (rolling closes 52 (midpoint highs lows 52)) [0..<length closes]);
          lagging = map (\<lambda>(c, index). \<lparr>entry_index = int index - 26, entry_value = c\<rparr>)
                        (zip closes [0..<length closes])
      in \<lparr>conversionLine = conversion, baseLine = base, leadingSpanA = spanA,
          leadingSpanB = spanB, laggingSpan = lagging\<rparr>)"

section \<open>Signals and the graduated simulator (backtesting.js)\<close>

record signal_entry =
  signal :: string
  numericSignal :: int

datatype backtest_context =
    CtxSMA "real option list"
  | CtxRSI "real option list"
  | CtxMACD macd_result
  | CtxBands bands
  | CtxStochastic stochastic_result
  | CtxEmpty

text \<open>\<open>getClose\<close> of backtesting.js and predictions.js: \<open>Number(row.close)\<close>, a finite
  number or \<open>NaN\<close> (\<open>None\<close>).\<close>

definition getCloseNumber :: "bar \<Rightarrow> real option" where
  "getCloseNumber row = Number_raw (close row)"

text \<open>The label chosen in every branch of \<open>backtestStrategy\<close>: \<open>_weak\<close> unless the
  difference exceeds the medium or the strong threshold.\<close>

definition grade :: "string \<Rightarrow> real \<Rightarrow> real \<Rightarrow> real \<Rightarrow> string" where
  "grade side diff strong medium =
     (if diff > strong then side @ ''_strong''
      else if diff > medium then side @ ''_medium''
      else side @ ''_weak'')"

text \<open>What one pass of each loop writes to \<open>signals[i]\<close>; \<open>None\<close> where the pass writes
  nothing (\<open>continue\<close>, or neither condition holds).  A comparison with a close that is
  \<open>NaN\<close> is false, so both conditions of the SMA and of the Bollinger pass fail on it.\<close>

definition sma_signal :: "real option list \<Rightarrow> real option list \<Rightarrow> nat \<Rightarrow> signal_entry option" where
  "sma_signal sma closes i =
     (case (sma ! (i - 1), sma ! i) of
        (Some prev, Some cur) \<Rightarrow>
          (case (closes ! (i - 1), closes ! i) of
             (Some prevClose, Some c) \<Rightarrow>
               if prev < prevClose \<and> cur \<ge> c then
                 Some \<lparr>signal = grade ''sell'' (cur - c) (c * 0.02) (c * 0.005),
                       numericSignal = -1\<rparr>
               else if prev > prevClose \<and> cur \<le> c then
                 Some \<lparr>signal = grade ''buy'' (c - cur) (c * 0.02) (c * 0.005),
                       numericSignal = 1\<rparr>
               else None
           | _ \<Rightarrow> None)
      | _ \<Rightarrow> None)"

definition rsi_signal :: "real option list \<Rightarrow> nat \<Rightarrow> signal_entry option" where
  "rsi_signal rsi i =
     (case rsi ! i of
        None \<Rightarrow> None
      | Some v \<Rightarrow>
          if v < 30 then Some \<lparr>signal = grade ''buy'' (30 - v) 10 5, numericSignal = 1\<rparr>
          else if v > 70 then Some \<lparr>signal = grade ''sell'' (v - 70) 10 5, numericSignal = -1\<rparr>
          else None)"

definition macd_signal_at :: "real option list \<Rightarrow> real option list \<Rightarrow> nat \<Rightarrow> signal_entry option" where
  "macd_signal_at m sg i =
     (case (m ! (i - 1), sg ! (i - 1), m ! i, sg ! i) of
        (Some pm, Some ps, Some cm, Some cs) \<Rightarrow>
          if pm < ps \<and> cm \<ge> cs then
            Some \<lparr>signal = grade ''buy'' (cm - cs) 0.5 0.1, numericSignal = 1\<rparr>
          else if pm > ps \<and> cm \<le> cs then
            Some \<lparr>signal = grade ''sell'' (cs - cm) 0.5 0.1, numericSignal = -1\<rparr>
          else None
      | _ \<Rightarrow> None)"

definition bollinger_signal :: "bands \<Rightarrow> real option list \<Rightarrow> nat \<Rightarrow> signal_entry option" where
  "bollinger_signal bs closes i =
     (case (upper bs ! i, lower bs ! i) of
        (Some up, Some lo) \<Rightarrow>
          (case closes ! i of
             Some c \<Rightarrow>
               if c < lo then
                 Some \<lparr>signal = grade ''buy'' (lo - c) (c * 0.01) (c * 0.002), numericSignal = 1\<rparr>
               else if c > up then
                 Some \<lparr>signal = grade ''sell'' (c - up) (c * 0.01) (c * 0.002), numericSignal = -1\<rparr>
               else None
           | None \<Rightarrow> None)
      | _ \<Rightarrow> None)"

definition stochastic_signal :: "real option list \<Rightarrow> real option list \<Rightarrow> nat \<Rightarrow> signal_entry option" where
  "stochastic_signal pK pD i =
     (case (pK ! (i - 1), pD ! (i - 1), pK ! i, pD ! i) of
        (Some prevK, Some prevD, Some currK, Some currD) \<Rightarrow>
          if prevK < prevD \<and> currK \<ge> currD \<and> currK < 20 then
            Some \<lparr>signal = grade ''buy'' (20 - currK) 10 5, numericSignal = 1\<rparr>
          else if prevK > prevD \<and> currK \<le> currD \<and> currK > 80 then
            Some \<lparr>signal = grade ''sell'' (currK - 80) 10 5, numericSignal = -1\<rparr>
          else None
      | _ \<Rightarrow> None)"

text \<open>A loop \<open>for (i = from; i < points.length; i += 1)\<close> that assigns \<open>signals[i]\<close>.\<close>

definition signal_loop :: "(nat \<Rightarrow> signal_entry option) \<Rightarrow> nat \<Rightarrow> signal_entry list \<Rightarrow> signal_entry list" where
  "signal_loop body from signals =
     foldl (\<lambda>acc i. case body i of None \<Rightarrow> acc | Some s \<Rightarrow> acc[i := s])
           signals [from..<length signals]"

definition backtestStrategy :: "bar list \<Rightarrow> string \<Rightarrow> signal_entry list \<times> backtest_context" where
  "backtestStrategy points indicator =
     (let signals = map (\<lambda>_. \<lparr>signal = ''hold'', numericSignal = 0\<rparr>) points;
          closes = map getCloseNumber points
      in if indicator = ''sma'' then
           let sma = calculateSMA points 20
           in (signal_loop (sma_signal sma closes) 1 signals, CtxSMA sma)
         else if indicator = ''rsi'' then
           let rsi = calculateRSI points 14
           in (signal_loop (rsi_signal rsi) 0 signals, CtxRSI rsi)
         else if indicator = ''macd'' then
           let r = calculateMACD points 12 26 9
           in (signal_loop (macd_signal_at (macd r) (macd_signal r)) 1 signals, CtxMACD r)
         else if indicator = ''bollinger'' then
           let bs = calculateBollingerBands points 20 2
           in (signal_loop (bollinger_signal bs closes) 0 signals, CtxBands bs)
         else if indicator = ''stochastic'' then
           let r = calculateStochasticOscillator points 14 3
           in (signal_loop (stochastic_signal (percentK r) (percentD r)) 1 signals,
               CtxStochastic r)
         else (signals, CtxEmpty))"

record tstate =
  cash :: real
  shares :: real
  position :: nat
  portfolio :: "simpoint list"

text \<open>\<open>signals[index]?.signal ?? 'hold'\<close>.\<close>

definition signalAt :: "signal_entry list \<Rightarrow> nat \<Rightarrow> string" where
  "signalAt signals index = (if index < length signals then signal (signals ! index) else ''hold'')"

text \<open>The weight both branches of \<open>runTradingSimulation\<close> derive from the label.\<close>

definition weightOf :: "string \<Rightarrow> real" where
  "weightOf sg =
     (if suffix ''strong'' sg then 0.5
      else if suffix ''medium'' sg then 0.3
      else if suffix ''weak'' sg then 0.1
      else 1)"

text \<open>The simulators are modelled on finite prices.  On a close that is \<open>NaN\<close> the
  source's price is \<open>NaN\<close> and so is every later value of the run; the model does not
  follow such a run and reads the price as 0 there.  Every statement below on a
  simulator is about bars whose closes are finite.\<close>

definition finitePrice :: "real option \<Rightarrow> real" where
  "finitePrice n = (case n of Some x \<Rightarrow> x | None \<Rightarrow> 0)"

text \<open>The callback of \<open>points.forEach\<close> in \<open>runTradingSimulation\<close>.\<close>

definition tradingStep :: "signal_entry list \<Rightarrow> real \<Rightarrow> tstate \<Rightarrow> bar \<times> nat \<Rightarrow> tstate" where
  "tradingStep signals initialCapital st ri =
     (case ri of (row, index) \<Rightarrow>
        if index = 0 then
          st\<lparr>portfolio := portfolio st @ [\<lparr>sp_date = date row, sp_value = initialCapital\<rparr>]\<rparr>
        else
          let price = finitePrice (getCloseNumber row);
              sg = signalAt signals index;
              st1 =
                (if prefix ''buy'' sg \<and> position st = 0 then
                   let weight = weightOf sg;
                       toInvest = cash st * weight;
                       purchased = toInvest / price;
                       shares' = shares st + purchased
                   in st\<lparr>cash := cash st - toInvest, shares := shares',
                         position := (if shares' > 0 then 1 else position st)\<rparr>
                 else if prefix ''sell'' sg \<and> position st = 1 then
                   let weight = weightOf sg;
                       toSell = shares st * weight;
                       cash' = cash st + toSell * price;
                       shares' = shares st - toSell
                   in if shares' \<le> 1 / 1000000
                      then st\<lparr>cash := cash', shares := 0, position := 0\<rparr>
                      else st\<lparr>cash := cash', shares := shares'\<rparr>
                 else st)
          in st1\<lparr>portfolio := portfolio st1 @
                   [\<lparr>sp_date = date row, sp_value = cash st1 + shares st1 * price\<rparr>]\<rparr>)"

text \<open>The state before the first pass of a loop and after each pass.\<close>

fun states :: "('s \<Rightarrow> 'a \<Rightarrow> 's) \<Rightarrow> 's \<Rightarrow> 'a list \<Rightarrow> 's list" where
  "states f s [] = [s]"
| "states f s (x # xs) = s # states f (f s x) xs"

definition tradingStates :: "bar list \<Rightarrow> signal_entry list \<Rightarrow> real \<Rightarrow> tstate list" where
  "tradingStates points signals initialCapital =
     states (tradingStep signals initialCapital)
       \<lparr>cash = initialCapital, shares = 0, position = 0, portfolio = []\<rparr>
       (zip points [0..<length points])"

definition runTradingSimulation :: "bar list \<Rightarrow> signal_entry list \<Rightarrow> real \<Rightarrow> simpoint list" where
  "runTradingSimulation points signals initialCapital =
     portfolio (last (tradingStates points signals initialCapital))"

section \<open>The forecaster (predictions.js)\<close>

record forecastPoint =
  fc_date :: int
  fc_value :: real

text \<open>\<open>.filter((value) => Number.isFinite(value))\<close>: the closes that are \<open>NaN\<close> are
  dropped.\<close>

fun finiteOnly :: "real option list \<Rightarrow> real list" where
  "finiteOnly [] = []"
| "finiteOnly (None # vs) = finiteOnly vs"
| "finiteOnly (Some x # vs) = x # finiteOnly vs"

text \<open>The sums \<open>(sumX, sumY, sumXY, sumXX)\<close> accumulated by the loop of
  \<open>linearRegression\<close>.\<close>

definition regression_sums :: "real list \<Rightarrow> real \<times> real \<times> real \<times> real" where
  "regression_sums ys =
     foldl (\<lambda>(sumX, sumY, sumXY, sumXX) i.
              (sumX + real i, sumY + ys ! i, sumXY + real i * (ys ! i), sumXX + real i * real i))
           (0, 0, 0, 0) [0..<length ys]"

definition linearRegression :: "real list \<Rightarrow> real \<times> real" where
  "linearRegression ys =
     (let n = length ys
      in if n = 0 then (0, 0)
         else case regression_sums ys of (sumX, sumY, sumXY, sumXX) \<Rightarrow>
           let denominator = real n * sumXX - sumX * sumX;
               slope = (if denominator = 0 then 0
                        else (real n * sumXY - sumX * sumY) / denominator);
               intercept = (sumY - slope * sumX) / real n
           in (slope, intercept))"

definition smoothSeries :: "real list \<Rightarrow> nat \<Rightarrow> real list" where
  "smoothSeries vs window =
     map (\<lambda>i. let start = i + 1 - window;
                   sl = slice vs start (i + 1)
               in foldl (\<lambda>acc v. acc + v) 0 sl / real (length sl))
         [0..<length vs]"

text \<open>
  \<open>Date\<close> and the two functions of date-fns are not part of the repository.
  \<open>new Date(v)\<close> is a day of the range of \<open>Date\<close> or the Invalid Date (\<open>None\<close>);
  \<open>addDays\<close> of the Invalid Date, or past the range, is the Invalid Date; \<open>formatISO\<close>
  throws a \<open>RangeError\<close> on the Invalid Date.
\<close>

datatype error = RangeError

definition validDay :: "int \<Rightarrow> bool" where
  "validDay d = (- 100000000 \<le> d \<and> d \<le> 100000000)"

definition newDate :: "int \<Rightarrow> int option" where
  "newDate v = (if validDay v then Some v else None)"

definition addDays :: "int option \<Rightarrow> nat \<Rightarrow> int option" where
  "addDays d amount =
     (case d of
        None \<Rightarrow> None
      | Some x \<Rightarrow> if validDay (x + int amount) then Some (x + int amount) else None)"

definition formatISO :: "int option \<Rightarrow> error + int" where
  "formatISO d = (case d of None \<Rightarrow> Inl RangeError | Some x \<Rightarrow> Inr x)"

text \<open>The loop \<open>for (i = 1; i <= days; i += 1)\<close> runs over the positive integers up to
  the number \<open>days\<close>.\<close>

definition dayIndices :: "real \<Rightarrow> nat list" where
  "dayIndices days = [1..<Suc (nat \<lfloor>days\<rfloor>)]"

text \<open>The loop body shared by the three models, \<open>predictions.push({date:
  formatISO(addDays(lastDate, i), ...), value: projected})\<close>, over the remaining indices:
  the first throw ends the loop and the function.\<close>

fun pushPredictions :: "(nat \<Rightarrow> real) \<Rightarrow> int option \<Rightarrow> nat list \<Rightarrow> error + forecastPoint list" where
  "pushPredictions projected lastDate [] = Inr []"
| "pushPredictions projected lastDate (i # rest) =
     (case formatISO (addDays lastDate i) of
        Inl e \<Rightarrow> Inl e
      | Inr d \<Rightarrow>
          (case pushPredictions projected lastDate rest of
             Inl e \<Rightarrow> Inl e
           | Inr ps \<Rightarrow> Inr (\<lparr>fc_date = d, fc_value = projected i\<rparr> # ps)))"

text \<open>\<open>lastDate\<close> is made of the date of the last bar: past the early return \<open>points\<close>
  is not empty.\<close>

definition predictFuturePrices ::
  "bar list \<Rightarrow> string \<Rightarrow> string \<Rightarrow> real \<Rightarrow> error + forecastPoint list" where
  "predictFuturePrices points indicator model days =
     (let closes = finiteOnly (map getCloseNumber points)
      in if length closes = 0 then Inr []
         else
           let lastDate = newDate (date (last points))
           in if model = ''simple'' then
                let trend = (last closes - hd closes) / real (length closes);
                    lastPrice = last closes
                in pushPredictions (\<lambda>i. lastPrice + trend * real i) lastDate (dayIndices days)
              else if model = ''arima'' then
                (case linearRegression closes of (slope, intercept) \<Rightarrow>
                   pushPredictions (\<lambda>i. slope * real (length closes + i) + intercept)
                     lastDate (dayIndices days))
              else if model = ''prophet'' then
                (let smoothed = smoothSeries closes 7
                 in case linearRegression smoothed of (slope, intercept) \<Rightarrow>
                      pushPredictions (\<lambda>i. slope * real (length smoothed + i) + intercept)
                        lastDate (dayIndices days))
              else Inr [])"

section \<open>The insights route (routes/analytics.js, computeSignals.js)\<close>

text \<open>
  The part of \<open>computeSignals\<close> that the starting capital reaches: signals, simulation,
  forecast and the simulation summary.  The quote, the news and the summary text do not
  read the capital and are left out.  \<open>fetched\<close> is what \<open>fetchYahooHistory\<close> delivered
  (\<open>[]\<close> when it failed), \<open>mock\<close> what \<open>generateMockHistory\<close> delivers in its place.
  A thrown error is \<open>Inl\<close> of its message.
\<close>

record simulationSummary =
  sum_initialCapital :: real
  sum_finalValue :: "real option"
  sum_totalReturn :: "real option"

record insights =
  ins_signals :: "signal_entry list"
  ins_simulation :: "simpoint list"
  ins_summary :: simulationSummary
  ins_forecast :: "forecastPoint list"

definition errorMessage :: "error \<Rightarrow> string" where
  "errorMessage e = (case e of RangeError \<Rightarrow> ''Invalid time value'')"

definition computeSignals ::
  "bar list \<Rightarrow> bar list \<Rightarrow> string \<Rightarrow> string \<Rightarrow> real \<Rightarrow> real \<Rightarrow> string + insights" where
  "computeSignals fetched mock indicator forecastModel forecastHorizon capital =
     (let history = (if length fetched = 0 then mock else fetched)
      in if length history = 0
         then Inl ''No historical data available for the requested symbol.''
         else
           let signals = fst (backtestStrategy history indicator);
               simulation = runTradingSimulation history signals capital
           in case predictFuturePrices history indicator forecastModel forecastHorizon of
                Inl e \<Rightarrow> Inl (errorMessage e)
              | Inr prediction \<Rightarrow>
                  let final = (case simulation of [] \<Rightarrow> None
                               | _ \<Rightarrow> Some (sp_value (last simulation)));
                      total = (case final of None \<Rightarrow> None
                               | Some v \<Rightarrow> Some (((v - capital) / capital) * 100))
                  in Inr \<lparr>ins_signals = signals, ins_simulation = simulation,
                          ins_summary = \<lparr>sum_initialCapital = capital, sum_finalValue = final,
                                         sum_totalReturn = total\<rparr>,
                          ins_forecast = prediction\<rparr>)"

text \<open>
  The query of \<open>GET /insights\<close>: each parameter is absent (\<open>None\<close>) or a text.  An empty
  text is falsy.  \<open>toNum\<close> is \<open>Number\<close> on a text.  The answer is \<open>Inl (status, message)\<close>
  for an error response and \<open>Inr payload\<close> for the JSON body of a 200.
\<close>

record insights_query =
  q_symbol :: "string option"
  q_indicator :: "string option"
  q_forecastModel :: "string option"
  q_forecastHorizon :: "string option"
  q_initialCapital :: "string option"

definition present :: "string option \<Rightarrow> bool" where
  "present v = (case v of None \<Rightarrow> False | Some t \<Rightarrow> t \<noteq> [])"

definition insights_route ::
  "(string \<Rightarrow> real) \<Rightarrow> bar list \<Rightarrow> bar list \<Rightarrow> insights_query \<Rightarrow> (nat \<times> string) + insights" where
  \<open>insights_route toNum fetched mock q =
     (if \<not> present (q_symbol q)
      then Inl (400, ''Query parameter "symbol" is required.'')
      else
        let indicator = (case q_indicator q of None \<Rightarrow> ''sma'' | Some t \<Rightarrow> t);
            forecastModel = (case q_forecastModel q of None \<Rightarrow> ''simple'' | Some t \<Rightarrow> t);
            forecastHorizon = (case q_forecastHorizon q of
                                 None \<Rightarrow> 60
                               | Some t \<Rightarrow> if t \<noteq> [] then toNum t else 60);
            capital = (case q_initialCapital q of
                         None \<Rightarrow> 10000
                       | Some t \<Rightarrow> if t \<noteq> [] then toNum t else 10000)
        in case computeSignals fetched mock indicator forecastModel forecastHorizon capital of
             Inl message \<Rightarrow> Inl (500, message)
           | Inr payload \<Rightarrow> Inr payload)\<close>

section \<open>The advanced backtest (AdvancedBacktest.jsx)\<close>

subsection \<open>Max drawdown\<close>
text \<open>The loop state is \<open>(peak, maxDd)\<close>; \<open>peak = None\<close> stands for the initial
  \<open>-Infinity\<close>, the only non-finite value the peak can hold.\<close>

definition maxDrawdown_step :: "real option \<times> real \<Rightarrow> simpoint \<Rightarrow> real option \<times> real" where
  "maxDrawdown_step st row =
     (case st of (peak, maxDd) \<Rightarrow>
        let peak' = (if (case peak of None \<Rightarrow> True | Some p \<Rightarrow> sp_value row > p)
                     then Some (sp_value row) else peak)
        in case peak' of
             None \<Rightarrow> (peak', maxDd)
           | Some p \<Rightarrow>
               if p = 0 then (peak', maxDd)
               else let drawdown = (sp_value row - p) / p
                    in if drawdown < maxDd then (peak', drawdown) else (peak', maxDd))"

definition maxDrawdown :: "simpoint list \<Rightarrow> real" where
  "maxDrawdown series = snd (foldl maxDrawdown_step (None, 0) series)"

subsection \<open>Doubles\<close>

text \<open>
  The rounding of a real to the nearest double (binary64, ties to even), for the reals
  of the normal and subnormal range; overflow to an infinity is not modelled.
  \<open>exponent_of n x 0\<close> is the binary exponent of \<open>x > 0\<close>, found in at most \<open>n\<close> doublings
  or halvings; 2200 of them cover the range of the doubles.
\<close>

fun exponent_of :: "nat \<Rightarrow> real \<Rightarrow> int \<Rightarrow> int" where
  "exponent_of 0 x e = e"
| "exponent_of (Suc n) x e =
     (if x \<ge> 2 then exponent_of n (x / 2) (e + 1)
      else if x < 1 then exponent_of n (x * 2) (e - 1)
      else e)"

definition pow2 :: "int \<Rightarrow> real" where
  "pow2 e = (if e \<ge> 0 then 2 ^ nat e else 1 / 2 ^ nat (- e))"

definition roundHalfEven :: "real \<Rightarrow> int" where
  "roundHalfEven y =
     (let f = \<lfloor>y\<rfloor>;
          d = y - of_int f
      in if d < 1 / 2 then f
         else if d > 1 / 2 then f + 1
         else if even f then f else f + 1)"

definition binary64 :: "real \<Rightarrow> real" where
  "binary64 x =
     (if x = 0 then 0
      else let e = max (exponent_of 2200 \<bar>x\<bar> 0) (- 1022);
               ulp = pow2 (e - 52)
           in sgn x * (of_int (roundHalfEven (\<bar>x\<bar> / ulp)) * ulp))"

subsection \<open>The all-or-nothing simulator\<close>

text \<open>Every arithmetic operation of \<open>runSimulation\<close> is followed by the rounding \<open>rnd\<close>.\<close>

datatype trade_type = BUY | SELL | STOP | TARGET | LIQUIDATE

record trade =
  tr_type :: trade_type
  tr_date :: int
  tr_price :: real
  changePct :: "real option"

record sstate =
  sim_cash :: real
  sim_shares :: real
  entryPrice :: "real option"
  trades :: "trade list"
  equity :: "simpoint list"

text \<open>\<open>signals[idx]?.numericSignal ?? 0\<close>.\<close>

definition numericSignalAt :: "signal_entry list \<Rightarrow> nat \<Rightarrow> int" where
  "numericSignalAt signals idx = (if idx < length signals then numericSignal (signals ! idx) else 0)"

text \<open>A number or \<open>null\<close> used as a condition: \<open>null\<close> and 0 are falsy.\<close>

definition truthy :: "real option \<Rightarrow> bool" where
  "truthy v = (case v of None \<Rightarrow> False | Some x \<Rightarrow> x \<noteq> 0)"

text \<open>\<open>Number(row.close ?? 0)\<close>: \<open>null\<close> and \<open>undefined\<close> give 0, \<open>NaN\<close> stays.\<close>

definition closeOrZero :: "bar \<Rightarrow> real option" where
  "closeOrZero row =
     (case close row of JNull \<Rightarrow> Some 0 | JUndefined \<Rightarrow> Some 0 | v \<Rightarrow> Number_raw v)"

text \<open>\<open>((price - entryPrice) / entryPrice) * 100\<close>.\<close>

definition changePctOf :: "(real \<Rightarrow> real) \<Rightarrow> real \<Rightarrow> real \<Rightarrow> real" where
  "changePctOf rnd price entry = rnd (rnd (rnd (price - entry) / entry) * 100)"

text \<open>\<open>cash += shares * price\<close>.\<close>

definition proceeds :: "(real \<Rightarrow> real) \<Rightarrow> real \<Rightarrow> real \<Rightarrow> real \<Rightarrow> real" where
  "proceeds rnd c sh price = rnd (c + rnd (sh * price))"

text \<open>The stop-loss / take-profit check that opens the callback of \<open>runSimulation\<close>.\<close>

definition stopOrTarget ::
  "(real \<Rightarrow> real) \<Rightarrow> real \<Rightarrow> real \<Rightarrow> bar \<Rightarrow> real \<Rightarrow> sstate \<Rightarrow> sstate" where
  "stopOrTarget rnd stopLossPct takeProfitPct row price st =
     (if sim_shares st > 0 \<and> truthy (entryPrice st) then
        let pct = changePctOf rnd price (Number_js (entryPrice st))
        in if stopLossPct \<noteq> 0 \<and> pct \<le> - stopLossPct then
             st\<lparr>sim_cash := proceeds rnd (sim_cash st) (sim_shares st) price,
                trades := trades st @
                  [\<lparr>tr_type = STOP, tr_date = date row, tr_price = price, changePct = Some pct\<rparr>],
                sim_shares := 0, entryPrice := None\<rparr>
           else if takeProfitPct \<noteq> 0 \<and> pct \<ge> takeProfitPct then
             st\<lparr>sim_cash := proceeds rnd (sim_cash st) (sim_shares st) price,
                trades := trades st @
                  [\<lparr>tr_type = TARGET, tr_date = date row, tr_price = price, changePct = Some pct\<rparr>],
                sim_shares := 0, entryPrice := None\<rparr>
           else st
      else st)"

text \<open>The signal-driven entry and exit that follow it: \<open>qty = cash / price\<close>, then
  \<open>cash -= qty * price\<close>.\<close>

definition enterOrExit :: "(real \<Rightarrow> real) \<Rightarrow> int \<Rightarrow> bar \<Rightarrow> real \<Rightarrow> sstate \<Rightarrow> sstate" where
  "enterOrExit rnd sg row price st =
     (if sg > 0 \<and> sim_shares st = 0 \<and> price > 0 then
        let qty = rnd (sim_cash st / price)
        in if qty > 0 then
             st\<lparr>sim_shares := qty, sim_cash := rnd (sim_cash st - rnd (qty * price)),
                entryPrice := Some price,
                trades := trades st @
                  [\<lparr>tr_type = BUY, tr_date = date row, tr_price = price, changePct = None\<rparr>]\<rparr>
           else st
      else if sg < 0 \<and> sim_shares st > 0 then
        let pct = (if truthy (entryPrice st)
                   then Some (changePctOf rnd price (Number_js (entryPrice st)))
                   else None)
        in st\<lparr>sim_cash := proceeds rnd (sim_cash st) (sim_shares st) price,
              trades := trades st @
                [\<lparr>tr_type = SELL, tr_date = date row, tr_price = price, changePct = pct\<rparr>],
              sim_shares := 0, entryPrice := None\<rparr>
      else st)"

definition simulationStep ::
  "(real \<Rightarrow> real) \<Rightarrow> signal_entry list \<Rightarrow> real \<Rightarrow> real \<Rightarrow> sstate \<Rightarrow> bar \<times> nat \<Rightarrow> sstate" where
  "simulationStep rnd signals stopLossPct takeProfitPct st ri =
     (case ri of (row, idx) \<Rightarrow>
        let price = finitePrice (closeOrZero row);
            sg = numericSignalAt signals idx;
            st1 = stopOrTarget rnd stopLossPct takeProfitPct row price st;
            st2 = enterOrExit rnd sg row price st1
        in st2\<lparr>equity := equity st2 @
                 [\<lparr>sp_date = date row,
                   sp_value = proceeds rnd (sim_cash st2) (sim_shares st2) price\<rparr>]\<rparr>)"

text \<open>The liquidation after the loop: \<open>points.at(-1)\<close> is the last bar, and \<open>last?.close\<close>
  is truthy for a number other than 0.\<close>

definition liquidate :: "(real \<Rightarrow> real) \<Rightarrow> bar list \<Rightarrow> sstate \<Rightarrow> sstate" where
  "liquidate rnd points st =
     (if sim_shares st > 0 then
        (case points of
           [] \<Rightarrow> st
         | _ \<Rightarrow>
            (case close (last points) of
               JNum c \<Rightarrow>
                 if c \<noteq> 0 then
                   st\<lparr>sim_cash := proceeds rnd (sim_cash st) (sim_shares st) c,
                      trades := trades st @
                        [\<lparr>tr_type = LIQUIDATE, tr_date = date (last points),
                          tr_price = c, changePct = None\<rparr>]\<rparr>
                 else st
             | _ \<Rightarrow> st))
      else st)"

text \<open>Every state \<open>runSimulation\<close> passes through: the loop's, then the one after the
  liquidation.\<close>

definition simulationStates ::
  "(real \<Rightarrow> real) \<Rightarrow> bar list \<Rightarrow> signal_entry list \<Rightarrow> real \<Rightarrow> real \<Rightarrow> real \<Rightarrow> sstate list" where
  "simulationStates rnd points signals initialCapital stopLossPct takeProfitPct =
     (let loop = states (simulationStep rnd signals stopLossPct takeProfitPct)
                   \<lparr>sim_cash = initialCapital, sim_shares = 0, entryPrice = None,
                    trades = [], equity = []\<rparr>
                   (zip points [0..<length points])
      in loop @ [liquidate rnd points (last loop)])"

definition runSimulation ::
  "(real \<Rightarrow> real) \<Rightarrow> bar list \<Rightarrow> signal_entry list \<Rightarrow> real \<Rightarrow> real \<Rightarrow> real
     \<Rightarrow> simpoint list \<times> trade list" where
  "runSimulation rnd points signals initialCapital stopLossPct takeProfitPct =
     (let final = last (simulationStates rnd points signals initialCapital stopLossPct
                          takeProfitPct)
      in (equity final, trades final))"

subsection \<open>The capital check of \<open>handleRun\<close>\<close>

text \<open>\<open>capital = Math.max(Number(initialCapital) || 0, 0)\<close>, then the throw on
  \<open>capital <= 0\<close>; \<open>Inl\<close> carries the message of the thrown \<open>Error\<close>.\<close>

definition handleRun_capital :: "real \<Rightarrow> string + real" where
  "handleRun_capital initialCapital =
     (let capital = max initialCapital 0
      in if capital \<le> 0 then Inl ''Initial capital must be greater than zero.''
         else Inr capital)"

section \<open>Inputs of the scenarios\<close>

definition priceBar :: "int \<Rightarrow> real \<Rightarrow> bar" where
  "priceBar d c = \<lparr>date = d, opn = JNum c, high = JNum c, low = JNum c, close = JNum c,
                   volume = JNum 1000\<rparr>"

text \<open>\<open>n\<close> daily bars whose closes rise from \<open>start\<close> in steps of 1.\<close>

definition linearBars :: "real \<Rightarrow> nat \<Rightarrow> bar list" where
  "linearBars start n = map (\<lambda>k. priceBar (int k) (start + real k)) [0..<n]"

definition volumeBar :: "real \<Rightarrow> jsval \<Rightarrow> bar" where
  "volumeBar c v = \<lparr>date = 0, opn = JNum c, high = JNum c, low = JNum c, close = JNum c,
                    volume = v\<rparr>"

definition rangeBar :: "real \<Rightarrow> real \<Rightarrow> real \<Rightarrow> bar" where
  "rangeBar h l c = \<lparr>date = 0, opn = JNum c, high = JNum h, low = JNum l, close = JNum c,
                     volume = JNum 1000\<rparr>"

text \<open>A bar with the date \<open>d\<close> whose close is missing.\<close>

definition missingCloseBar :: "int \<Rightarrow> bar" where
  "missingCloseBar d = \<lparr>date = d, opn = JNum 100, high = JNum 100, low = JNum 100,
                         close = JUndefined, volume = JNum 1000\<rparr>"

text \<open>The query \<open>?symbol=...&initialCapital=...\<close> with every other parameter absent.\<close>

definition insightsQuery :: "string \<Rightarrow> string \<Rightarrow> insights_query" where
  "insightsQuery ticker capital =
     \<lparr>q_symbol = Some ticker, q_indicator = None, q_forecastModel = None,
      q_forecastHorizon = None, q_initialCapital = Some capital\<rparr>"

section \<open>General lemmas on loops\<close>

lemma foldl_invariant:
  "P s \<Longrightarrow> (\<And>x s. x \<in> set xs \<Longrightarrow> P s \<Longrightarrow> P (f s x)) \<Longrightarrow> P (foldl f s xs)"
  by (induction xs arbitrary: s) auto

lemma states_invariant:
  "P s \<Longrightarrow> (\<And>x s. x \<in> set xs \<Longrightarrow> P s \<Longrightarrow> P (f s x)) \<Longrightarrow> \<forall>s' \<in> set (states f s xs). P s'"
  by (induction xs arbitrary: s) auto

lemma last_states_in: "last (states f s xs) \<in> set (states f s xs)"
  by (cases xs) auto

lemma map_upt_None: "(\<And>i. i < n \<Longrightarrow> f i = None) \<Longrightarrow> map f [0..<n] = replicate n None"
  by (simp add: list_eq_iff_nth_eq)

lemma nth_in_slice:
  assumes "a \<le> i" "i < length xs"
  shows "xs ! i \<in> set (slice xs a (i + 1))"
proof -
  have "i - a < length (slice xs a (i + 1))" using assms by (simp add: slice_def)
  moreover have "slice xs a (i + 1) ! (i - a) = xs ! i" using assms by (simp add: slice_def)
  ultimately show ?thesis by (metis nth_mem)
qed

section \<open>Properties of max drawdown\<close>

lemma maxDrawdown_step_nonpos:
  "snd st \<le> 0 \<Longrightarrow> snd (maxDrawdown_step st row) \<le> 0"
  by (cases st) (auto simp: maxDrawdown_step_def Let_def split: option.splits)

lemma maxDrawdown_fold_nonpos:
  "snd st \<le> 0 \<Longrightarrow> snd (foldl maxDrawdown_step st series) \<le> 0"
  by (induction series arbitrary: st) (simp_all add: maxDrawdown_step_nonpos)

lemma maxDrawdown_step_rising:
  assumes "case peak of None \<Rightarrow> True | Some p \<Rightarrow> p \<le> sp_value row"
  shows "maxDrawdown_step (peak, 0) row = (Some (sp_value row), 0)"
  using assms by (auto simp: maxDrawdown_step_def Let_def split: option.splits)

lemma maxDrawdown_fold_rising:
  assumes "sorted (map sp_value series)"
    and "case peak of None \<Rightarrow> True | Some p \<Rightarrow> \<forall>r \<in> set series. p \<le> sp_value r"
  shows "snd (foldl maxDrawdown_step (peak, 0) series) = 0"
  using assms
proof (induction series arbitrary: peak)
  case Nil
  then show ?case by simp
next
  case (Cons row rest)
  have step: "maxDrawdown_step (peak, 0) row = (Some (sp_value row), 0)"
    using Cons.prems(2) by (intro maxDrawdown_step_rising) (auto split: option.splits)
  have "snd (foldl maxDrawdown_step (Some (sp_value row), 0) rest) = 0"
    using Cons.prems(1) by (intro Cons.IH) auto
  with step show ?case by simp
qed

text \<open>
  C8.  For every equity curve \<open>maxDrawdown\<close> returns a value \<open>\<le> 0\<close>, and it returns
  exactly \<open>0\<close> whenever the curve is non-decreasing.
\<close>

theorem maxDrawdown_nonpos_and_zero_on_rising:
  "maxDrawdown series \<le> 0 \<and>
   (sorted (map sp_value series) \<longrightarrow> maxDrawdown series = 0)"
proof
  show "maxDrawdown series \<le> 0"
    unfolding maxDrawdown_def by (rule maxDrawdown_fold_nonpos) simp
  show "sorted (map sp_value series) \<longrightarrow> maxDrawdown series = 0"
    unfolding maxDrawdown_def by (auto intro: maxDrawdown_fold_rising)
qed

theorem maxDrawdown_nonpos_and_zero_on_rising_witness:
  "sorted (map sp_value [\<lparr>sp_date = 0, sp_value = 100\<rparr>, \<lparr>sp_date = 1, sp_value = 100\<rparr>,
                          \<lparr>sp_date = 2, sp_value = 130\<rparr>]) \<and>
   maxDrawdown [\<lparr>sp_date = 0, sp_value = 100\<rparr>, \<lparr>sp_date = 1, sp_value = 100\<rparr>,
                \<lparr>sp_date = 2, sp_value = 130\<rparr>] = 0 \<and>
   maxDrawdown [\<lparr>sp_date = 0, sp_value = 100\<rparr>, \<lparr>sp_date = 1, sp_value = 80\<rparr>] \<le> 0"
  using maxDrawdown_nonpos_and_zero_on_rising
          [of "[\<lparr>sp_date = 0, sp_value = 100\<rparr>, \<lparr>sp_date = 1, sp_value = 100\<rparr>,
                \<lparr>sp_date = 2, sp_value = 130\<rparr>]"]
        maxDrawdown_nonpos_and_zero_on_rising
          [of "[\<lparr>sp_date = 0, sp_value = 100\<rparr>, \<lparr>sp_date = 1, sp_value = 80\<rparr>]"]
  by simp

section \<open>The SMA scenario\<close>

text \<open>
  C6, as amended.  For the 25 daily bars whose closes rise from 100 to 124 in steps of
  1, \<open>calculateSMA\<close> with window 20 at index 24 is the arithmetic mean of the last 20
  closes, and that value is 114.5.
\<close>

theorem calculateSMA_linear_scenario:
  "calculateSMA (linearBars 100 25) 20 ! 24
     = Some (sum_list (map (\<lambda>b. Number_js (getClose b)) (drop 5 (linearBars 100 25))) / 20) \<and>
   calculateSMA (linearBars 100 25) 20 ! 24 = Some 114.5"
  by code_simp

text \<open>The value the scenario names, 115.5, is not the one computed.\<close>

theorem calculateSMA_linear_scenario_not_115_5:
  "\<not> (calculateSMA (linearBars 100 25) 20 ! 24 = Some 115.5)"
  by code_simp

section \<open>RSI on a rising series\<close>

text \<open>
  C2, on the failing input: 15 bars each rising by 1, window 14.  The average loss is
  zero, \<open>rs\<close> is set to 100, and the value written at index 14 is \<open>100 - 100/101\<close>, not
  100.
\<close>

theorem calculateRSI_rising_bars:
  "calculateRSI (linearBars 1 15) 14 ! 14 = Some (10000 / 101) \<and>
   calculateRSI (linearBars 1 15) 14 ! 14 \<noteq> Some 100"
  by code_simp

section \<open>VWAP on bars without volume\<close>

lemma vwap_step_skip:
  "getVolume row = None \<or> getVolume row = Some 0 \<Longrightarrow> vwap_step st (row, index) = st"
  by (cases st) (auto simp: vwap_step_def)

lemma vwap_step_keeps:
  assumes "length (snd (snd st)) = n" "snd (snd st) ! i = None"
    and "j \<noteq> i \<or> getVolume row = None \<or> getVolume row = Some 0"
  shows "length (snd (snd (vwap_step st (row, j)))) = n \<and>
         snd (snd (vwap_step st (row, j))) ! i = None"
  using assms
  by (cases st) (auto simp: vwap_step_def Let_def)

lemma vwap_null_at_zero_volume:
  assumes "i < length points"
    and "getVolume (points ! i) = None \<or> getVolume (points ! i) = Some 0"
  shows "calculateVWAP points ! i = None"
proof -
  let ?P = "\<lambda>st :: real \<times> real \<times> real option list.
              length (snd (snd st)) = length points \<and> snd (snd st) ! i = None"
  have "?P (foldl vwap_step (0, 0, replicate (length points) None)
                  (zip points [0..<length points]))"
  proof (rule foldl_invariant[where P = ?P])
    show "?P (0, 0, replicate (length points) None)" using assms(1) by simp
  next
    fix x and st :: "real \<times> real \<times> real option list"
    assume x: "x \<in> set (zip points [0..<length points])" and st: "?P st"
    obtain row j where xj: "x = (row, j)" by (cases x)
    from x xj have "j < length points" "row = points ! j"
      by (auto simp: in_set_zip)
    then have "j \<noteq> i \<or> getVolume row = None \<or> getVolume row = Some 0"
      using assms(2) by auto
    with st show "?P (vwap_step st x)" unfolding xj using vwap_step_keeps by blast
  qed
  then show ?thesis by (simp add: calculateVWAP_def)
qed

text \<open>
  C7, as amended.  A bar with zero or \<open>null\<close> volume (what \<open>getVolume\<close> answers for a
  volume of 0, a \<open>null\<close>, or a missing or non-finite one) leaves the whole loop state
  (both running sums and the result array) as it was, and the entry of \<open>calculateVWAP\<close>
  at the index of such a bar is \<open>null\<close>, whatever was computed before it.
\<close>

theorem calculateVWAP_null_on_zero_volume:
  "(getVolume row = None \<or> getVolume row = Some 0 \<longrightarrow> vwap_step st (row, index) = st) \<and>
   (i < length points \<and>
    (getVolume (points ! i) = None \<or> getVolume (points ! i) = Some 0)
      \<longrightarrow> calculateVWAP points ! i = None)"
  using vwap_step_skip vwap_null_at_zero_volume by blast

theorem calculateVWAP_null_on_zero_volume_witness:
  "calculateVWAP [volumeBar 100 (JNum 10), volumeBar 110 (JNum 0), volumeBar 120 JNull,
                  volumeBar 130 (JNum 10)] ! 1 = None \<and>
   calculateVWAP [volumeBar 100 (JNum 10), volumeBar 110 (JNum 0), volumeBar 120 JNull,
                  volumeBar 130 (JNum 10)] ! 2 = None"
  using calculateVWAP_null_on_zero_volume
          [where i = 1 and points = "[volumeBar 100 (JNum 10), volumeBar 110 (JNum 0),
                                       volumeBar 120 JNull, volumeBar 130 (JNum 10)]"]
        calculateVWAP_null_on_zero_volume
          [where i = 2 and points = "[volumeBar 100 (JNum 10), volumeBar 110 (JNum 0),
                                       volumeBar 120 JNull, volumeBar 130 (JNum 10)]"]
  by (simp add: volumeBar_def getVolume_def toNumber_def Number_raw_def)

text \<open>The value computed at index 0 is not carried to the zero-volume bar at index 1.\<close>

theorem calculateVWAP_no_carry_forward:
  "volume ([volumeBar 100 (JNum 10), volumeBar 110 (JNum 0)] ! 1) = JNum 0 \<and>
   calculateVWAP [volumeBar 100 (JNum 10), volumeBar 110 (JNum 0)] ! 0 = Some 100 \<and>
   calculateVWAP [volumeBar 100 (JNum 10), volumeBar 110 (JNum 0)] ! 1 \<noteq> Some 100"
  by code_simp

section \<open>Series on short inputs\<close>

lemma length_ema_loop: "length (ema_loop m p vs) = length vs"
  by (induction m p vs rule: ema_loop.induct) (simp_all add: Let_def)

lemma length_rolling: "length (rolling vs w r) = length vs"
  by (simp add: rolling_def)

lemma rolling_short: "length vs < w \<Longrightarrow> rolling vs w r = replicate (length vs) None"
  unfolding rolling_def by (rule map_upt_None) simp

lemma calculateSMA_short:
  "length points < w \<Longrightarrow> calculateSMA points w = replicate (length points) None"
  by (simp add: calculateSMA_def rolling_short)

lemma rsi_step_length:
  "length (snd (snd (rsi_step closes w st i))) = length (snd (snd st))"
proof -
  obtain g l r where st: "st = (g, l, r)" by (cases st) auto
  show ?thesis unfolding st rsi_step_def by (simp add: Let_def)
qed

lemma rsi_step_early: "i < w \<Longrightarrow> snd (snd (rsi_step closes w st i)) = snd (snd st)"
proof -
  assume a: "i < w"
  obtain g l r where st: "st = (g, l, r)" by (cases st) auto
  show ?thesis unfolding st rsi_step_def using a by (simp add: Let_def)
qed

lemma length_calculateRSI: "length (calculateRSI points w) = length points"
proof -
  have "length (snd (snd (foldl (rsi_step closes w) st is))) = length (snd (snd st))"
    for closes st "is"
    by (induction "is" arbitrary: st) (simp_all add: rsi_step_length)
  then show ?thesis by (simp add: calculateRSI_def Let_def)
qed

lemma calculateRSI_short:
  assumes "length points \<le> w"
  shows "calculateRSI points w = replicate (length points) None"
proof -
  have "\<forall>i \<in> set is. i < w \<Longrightarrow> snd (snd (foldl (rsi_step closes w) st is)) = snd (snd st)"
    for closes st "is"
    by (induction "is" arbitrary: st) (simp_all add: rsi_step_early)
  from this[of "[1..<length points]"] assms show ?thesis
    by (simp add: calculateRSI_def Let_def)
qed

lemma calculateBollingerBands_short:
  assumes "length points < w"
  shows "calculateBollingerBands points w k =
     \<lparr>middle = replicate (length points) None, upper = replicate (length points) None,
      lower = replicate (length points) None\<rparr>"
proof -
  have "map (map_option g \<circ> bollinger_at closes sma w k) [0..<length points]
          = replicate (length points) None"
    for closes sma and g :: "real \<times> real \<Rightarrow> real"
    using assms by (intro map_upt_None) (simp add: bollinger_at_def)
  then show ?thesis
    using assms by (simp add: calculateBollingerBands_def Let_def calculateSMA_def rolling_short)
qed

lemma percentK_short:
  assumes "length points < kw"
  shows "percentK (calculateStochasticOscillator points kw dw) = replicate (length points) None"
proof -
  have "map (percentK_at hs ls cs kw) [0..<length points] = replicate (length points) None"
    for hs ls cs
    using assms by (intro map_upt_None) (simp add: percentK_at_def)
  then show ?thesis by (simp add: calculateStochasticOscillator_def Let_def)
qed

lemma percentD_short:
  assumes "length points < dw"
  shows "percentD (calculateStochasticOscillator points kw dw) = replicate (length points) None"
  using assms by (simp add: calculateStochasticOscillator_def Let_def rolling_short)

lemma series_lengths:
  "length (calculateSMA points w) = length points"
  "length (macd (calculateMACD points s l g)) = length points"
  "length (macd_signal (calculateMACD points s l g)) = length points"
  "length (middle (calculateBollingerBands points w k)) = length points"
  "length (upper (calculateBollingerBands points w k)) = length points"
  "length (lower (calculateBollingerBands points w k)) = length points"
  "length (percentK (calculateStochasticOscillator points kw dw)) = length points"
  "length (percentD (calculateStochasticOscillator points kw dw)) = length points"
  "length (calculateBollingerBandwidth points w k) = length points"
  "length (adx (calculateADX points period)) = length points"
  "length (plusDI (calculateADX points period)) = length points"
  "length (minusDI (calculateADX points period)) = length points"
  "length (conversionLine (calculateIchimoku points)) = length points"
  "length (baseLine (calculateIchimoku points)) = length points"
  "length (leadingSpanA (calculateIchimoku points)) = length points"
  "length (leadingSpanB (calculateIchimoku points)) = length points"
  "length (laggingSpan (calculateIchimoku points)) = length points"
  by (simp_all add: calculateSMA_def length_rolling calculateMACD_def Let_def ema_def
        length_ema_loop calculateBollingerBands_def calculateStochasticOscillator_def
        calculateBollingerBandwidth_def calculateADX_def calculateIchimoku_def)

lemma length_calculateVWAP: "length (calculateVWAP points) = length points"
proof -
  let ?P = "\<lambda>st :: real \<times> real \<times> real option list. length (snd (snd st)) = length points"
  have "?P (foldl vwap_step (0, 0, replicate (length points) None)
                  (zip points [0..<length points]))"
  proof (rule foldl_invariant[where P = ?P])
    show "?P (0, 0, replicate (length points) None)" by simp
  next
    fix x :: "bar \<times> nat" and st :: "real \<times> real \<times> real option list"
    assume st: "?P st"
    obtain row j where xj: "x = (row, j)" by (cases x)
    obtain cv ct r where s: "st = (cv, ct, r)" by (cases st) auto
    show "?P (vwap_step st x)" using st unfolding xj s by (simp add: vwap_step_def Let_def)
  qed
  then show ?thesis by (simp add: calculateVWAP_def)
qed

lemma calculateBollingerBandwidth_short:
  assumes "length points < w"
  shows "calculateBollingerBandwidth points w k = replicate (length points) None"
proof -
  have bs: "calculateBollingerBands points w k =
     \<lparr>middle = replicate (length points) None, upper = replicate (length points) None,
      lower = replicate (length points) None\<rparr>"
    using assms by (rule calculateBollingerBands_short)
  show ?thesis
    unfolding calculateBollingerBandwidth_def bs Let_def
    by (auto intro!: map_upt_None)
qed

lemma conversionLine_short:
  "length points < 9 \<Longrightarrow>
     conversionLine (calculateIchimoku points) = replicate (length points) None"
  by (simp add: calculateIchimoku_def Let_def rolling_short)

lemma baseLine_short:
  "length points < 26 \<Longrightarrow>
     baseLine (calculateIchimoku points) = replicate (length points) None"
  by (simp add: calculateIchimoku_def Let_def rolling_short)

lemma leadingSpanA_short:
  assumes "length points < 26"
  shows "leadingSpanA (calculateIchimoku points) = replicate (length points) None"
proof -
  have base: "rolling (map getClose points) 26 r = replicate (length points) None" for r
    using assms by (simp add: rolling_short)
  show ?thesis
    unfolding calculateIchimoku_def Let_def base
    by (auto simp: length_rolling intro!: map_upt_None split: option.splits)
qed

lemma leadingSpanB_short:
  assumes "length points < 52"
  shows "map entry_value (leadingSpanB (calculateIchimoku points))
           = replicate (length points) None"
proof -
  have vals: "map entry_value
                  (map (\<lambda>(v, index). \<lparr>entry_index = int index + 26, entry_value = v\<rparr>)
                       (zip vs is)) = vs"
    if "length vs = length is" for vs :: "real option list" and "is" :: "nat list"
    using that by (induction vs "is" rule: list_induct2) simp_all
  have b: "rolling (map getClose points) 52 r = replicate (length points) None" for r
    using assms by (simp add: rolling_short)
  show ?thesis
    unfolding calculateIchimoku_def Let_def b
    using vals[of "replicate (length points) None" "[0..<length points]"] by simp
qed


text \<open>
  C3, as amended.  For every bar sequence, every series of every indicator has the
  length of the input: SMA, RSI, MACD line and signal, the three Bollinger bands, the
  Bollinger bandwidth, stochastic \<open>%K\<close> and \<open>%D\<close>, VWAP, ADX with \<open>+DI\<close> and \<open>-DI\<close>, and
  the five Ichimoku series.  For every bar sequence shorter than the window, every
  entry is \<open>null\<close> in the SMA, the RSI, the Bollinger bands and the bandwidth; in \<open>%K\<close>
  when the sequence is shorter than \<open>kWindow\<close>; in \<open>%D\<close> when it is shorter than
  \<open>dWindow\<close>; in the Ichimoku conversion line below 9 bars, in the base line and the
  leading span A below 26 bars; and every entry of the leading span B carries the value
  \<open>null\<close> below 52 bars.  The series built on \<open>ema\<close> (MACD line and signal, ADX, \<open>+DI\<close>,
  \<open>-DI\<close>) have no warm-up and are not among them.
\<close>

theorem short_input_series:
  "length (calculateSMA points w) = length points \<and>
   length (calculateRSI points w) = length points \<and>
   length (macd (calculateMACD points s l g)) = length points \<and>
   length (macd_signal (calculateMACD points s l g)) = length points \<and>
   length (middle (calculateBollingerBands points w k)) = length points \<and>
   length (upper (calculateBollingerBands points w k)) = length points \<and>
   length (lower (calculateBollingerBands points w k)) = length points \<and>
   length (calculateBollingerBandwidth points w k) = length points \<and>
   length (percentK (calculateStochasticOscillator points kw dw)) = length points \<and>
   length (percentD (calculateStochasticOscillator points kw dw)) = length points \<and>
   length (calculateVWAP points) = length points \<and>
   length (adx (calculateADX points period)) = length points \<and>
   length (plusDI (calculateADX points period)) = length points \<and>
   length (minusDI (calculateADX points period)) = length points \<and>
   length (conversionLine (calculateIchimoku points)) = length points \<and>
   length (baseLine (calculateIchimoku points)) = length points \<and>
   length (leadingSpanA (calculateIchimoku points)) = length points \<and>
   length (leadingSpanB (calculateIchimoku points)) = length points \<and>
   length (laggingSpan (calculateIchimoku points)) = length points \<and>
   (length points < w \<longrightarrow>
      calculateSMA points w = replicate (length points) None \<and>
      calculateRSI points w = replicate (length points) None \<and>
      calculateBollingerBands points w k =
        \<lparr>middle = replicate (length points) None, upper = replicate (length points) None,
         lower = replicate (length points) None\<rparr> \<and>
      calculateBollingerBandwidth points w k = replicate (length points) None) \<and>
   (length points < kw \<longrightarrow>
      percentK (calculateStochasticOscillator points kw dw) = replicate (length points) None) \<and>
   (length points < dw \<longrightarrow>
      percentD (calculateStochasticOscillator points kw dw) = replicate (length points) None) \<and>
   (length points < 9 \<longrightarrow>
      conversionLine (calculateIchimoku points) = replicate (length points) None) \<and>
   (length points < 26 \<longrightarrow>
      baseLine (calculateIchimoku points) = replicate (length points) None \<and>
      leadingSpanA (calculateIchimoku points) = replicate (length points) None) \<and>
   (length points < 52 \<longrightarrow>
      map entry_value (leadingSpanB (calculateIchimoku points))
        = replicate (length points) None)"
  by (intro conjI impI)
     (simp_all add: series_lengths length_calculateRSI length_calculateVWAP
        calculateSMA_short calculateRSI_short calculateBollingerBands_short
        calculateBollingerBandwidth_short percentK_short percentD_short
        conversionLine_short baseLine_short leadingSpanA_short leadingSpanB_short)

theorem short_input_series_witness:
  "calculateSMA (linearBars 100 3) 20 = [None, None, None] \<and>
   calculateRSI (linearBars 100 3) 20 = [None, None, None] \<and>
   calculateBollingerBands (linearBars 100 3) 20 2 =
     \<lparr>middle = [None, None, None], upper = [None, None, None], lower = [None, None, None]\<rparr> \<and>
   calculateBollingerBandwidth (linearBars 100 3) 20 2 = [None, None, None] \<and>
   percentK (calculateStochasticOscillator (linearBars 100 3) 14 5) = [None, None, None] \<and>
   percentD (calculateStochasticOscillator (linearBars 100 3) 14 5) = [None, None, None] \<and>
   conversionLine (calculateIchimoku (linearBars 100 3)) = [None, None, None] \<and>
   baseLine (calculateIchimoku (linearBars 100 3)) = [None, None, None] \<and>
   leadingSpanA (calculateIchimoku (linearBars 100 3)) = [None, None, None] \<and>
   map entry_value (leadingSpanB (calculateIchimoku (linearBars 100 3))) = [None, None, None] \<and>
   length (macd (calculateMACD (linearBars 100 3) 12 26 9)) = 3 \<and>
   length (adx (calculateADX (linearBars 100 3) 14)) = 3"
proof -
  have len: "length (linearBars 100 3) = 3" by (simp add: linearBars_def)
  show ?thesis
    using short_input_series
            [where points = "linearBars 100 3" and w = 20 and s = 12 and l = 26 and g = 9
               and k = 2 and kw = 14 and dw = 5 and period = 14]
    unfolding len by (simp add: numeral_3_eq_3)
qed

text \<open>On one bar the MACD line and signal are not \<open>null\<close> although 1 is below every
  MACD window; on three bars the ADX with period 14 is not all \<open>null\<close>, and neither is
  \<open>%D\<close> with the windows 14 and 3.\<close>

theorem macd_and_percentD_not_null_on_short_input:
  "\<not> (macd (calculateMACD [priceBar 0 100] 12 26 9) = [None]) \<and>
   \<not> (macd_signal (calculateMACD [priceBar 0 100] 12 26 9) = [None]) \<and>
   \<not> (adx (calculateADX (linearBars 100 3) 14) = [None, None, None]) \<and>
   \<not> (percentD (calculateStochasticOscillator (linearBars 100 3) 14 3) = [None, None, None])"
  by code_simp

section \<open>The range of the stochastic oscillator\<close>

lemma rangeHigh_ge:
  assumes "i < length highs" "0 < kWindow"
  shows "Number_js (highs ! i) \<le> rangeHigh highs kWindow i"
proof -
  have "highs ! i \<in> set (slice highs (i + 1 - kWindow) (i + 1))"
    using assms by (intro nth_in_slice) simp_all
  then show ?thesis unfolding rangeHigh_def mathMax_def by (intro Max_ge) auto
qed

lemma rangeLow_le:
  assumes "i < length lows" "0 < kWindow"
  shows "rangeLow lows kWindow i \<le> Number_js (lows ! i)"
proof -
  have "lows ! i \<in> set (slice lows (i + 1 - kWindow) (i + 1))"
    using assms by (intro nth_in_slice) simp_all
  then show ?thesis unfolding rangeLow_def mathMin_def by (intro Min_le) auto
qed

lemma percentK_value:
  fixes c rl rh :: real
  assumes lo: "rl \<le> c" and hi: "c \<le> rh" and ne: "rh \<noteq> rl"
  shows "0 \<le> (c - rl) / (rh - rl) * 100" "(c - rl) / (rh - rl) * 100 \<le> 100"
        "(c - rl) / (rh - rl) * 100 = 0 \<longleftrightarrow> c = rl"
proof -
  have pos: "0 < rh - rl" using lo hi ne by simp
  show "0 \<le> (c - rl) / (rh - rl) * 100" using lo pos by simp
  have "(c - rl) / (rh - rl) \<le> 1" using hi pos by (simp add: divide_le_eq)
  then have "(c - rl) / (rh - rl) * 100 \<le> 1 * 100" by (intro mult_right_mono) simp_all
  then show "(c - rl) / (rh - rl) * 100 \<le> 100" by (simp del: times_divide_eq_left)
  show "(c - rl) / (rh - rl) * 100 = 0 \<longleftrightarrow> c = rl" using pos by simp
qed

text \<open>
  C5, as amended.  For a positive \<open>kWindow\<close> and every bar sequence in which each bar
  satisfies \<open>low \<le> close \<le> high\<close> (on the numbers the indicator reads from the bar),
  every non-null \<open>%K\<close> value lies in \<open>[0,100]\<close>; it is 0
  whenever the trailing high-low range is zero, and it is 0 exactly when that range is
  zero or the close equals the trailing lowest low.
\<close>

theorem percentK_bounds:
  assumes kw: "0 < kWindow"
    and bars: "\<forall>b \<in> set points. Number_js (getLow b) \<le> Number_js (getClose b) \<and>
                                   Number_js (getClose b) \<le> Number_js (getHigh b)"
    and i: "i < length points"
    and k: "percentK (calculateStochasticOscillator points kWindow dWindow) ! i = Some k"
  shows "0 \<le> k \<and> k \<le> 100 \<and>
         (rangeHigh (map getHigh points) kWindow i = rangeLow (map getLow points) kWindow i
            \<longrightarrow> k = 0) \<and>
         (k = 0 \<longleftrightarrow>
            rangeHigh (map getHigh points) kWindow i = rangeLow (map getLow points) kWindow i \<or>
            Number_js (getClose (points ! i)) = rangeLow (map getLow points) kWindow i)"
proof -
  let ?rh = "rangeHigh (map getHigh points) kWindow i"
  let ?rl = "rangeLow (map getLow points) kWindow i"
  let ?c = "Number_js (getClose (points ! i))"
  have at: "percentK_at (map getHigh points) (map getLow points) (map getClose points)
              kWindow i = Some k"
    using k i by (simp add: calculateStochasticOscillator_def Let_def)
  have c: "Number_js (map getClose points ! i) = ?c"
    using i by simp
  have kval: "k = (if ?rh = ?rl then 0 else (?c - ?rl) / (?rh - ?rl) * 100)"
    using at c by (auto simp: percentK_at_def Let_def split: if_splits)
  have "points ! i \<in> set points" using i by simp
  with bars have lc: "Number_js (getLow (points ! i)) \<le> ?c"
    and ch: "?c \<le> Number_js (getHigh (points ! i))"
    by auto
  have "?rl \<le> Number_js (map getLow points ! i)" using i kw by (intro rangeLow_le) simp_all
  then have lo: "?rl \<le> ?c" using lc i by simp
  have "Number_js (map getHigh points ! i) \<le> ?rh" using i kw by (intro rangeHigh_ge) simp_all
  then have hi: "?c \<le> ?rh" using ch i by simp
  show ?thesis
  proof (cases "?rh = ?rl")
    case True
    then show ?thesis using kval by simp
  next
    case False
    then have "k = (?c - ?rl) / (?rh - ?rl) * 100" using kval by simp
    with percentK_value[OF lo hi False] False show ?thesis by simp
  qed
qed

theorem percentK_bounds_witness:
  "percentK (calculateStochasticOscillator (replicate 14 (rangeBar 110 100 105)) 14 3) ! 13
     = Some 50 \<and>
   rangeHigh (map getHigh (replicate 14 (rangeBar 110 100 105))) 14 13
     \<noteq> rangeLow (map getLow (replicate 14 (rangeBar 110 100 105))) 14 13"
proof -
  have kw: "0 < (14::nat)" by simp
  have bars: "\<forall>b \<in> set (replicate 14 (rangeBar 110 100 105)).
                Number_js (getLow b) \<le> Number_js (getClose b) \<and>
                Number_js (getClose b) \<le> Number_js (getHigh b)"
    by (simp add: rangeBar_def Number_js_def getLow_def getClose_def getHigh_def
          toNumber_def Number_raw_def)
  have i: "13 < length (replicate 14 (rangeBar 110 100 105))" by simp
  have k: "percentK (calculateStochasticOscillator (replicate 14 (rangeBar 110 100 105)) 14 3)
             ! 13 = Some 50"
    by code_simp
  have c: "Number_js (getClose (replicate 14 (rangeBar 110 100 105) ! 13)) = 105"
    by (simp add: rangeBar_def Number_js_def getLow_def getClose_def getHigh_def
          toNumber_def Number_raw_def)
  have l: "rangeLow (map getLow (replicate 14 (rangeBar 110 100 105))) 14 13 = 100"
    by code_simp
  show ?thesis using percentK_bounds[OF kw bars i k] k c l by simp
qed

text \<open>Fourteen bars with high 110, low 100 and close 100: \<open>%K\<close> is 0 at index 13 while
  the trailing range is 10.\<close>

theorem percentK_zero_on_nonzero_range:
  "list_all (\<lambda>b. Number_js (getLow b) \<le> Number_js (getClose b) \<and>
                  Number_js (getClose b) \<le> Number_js (getHigh b))
      (replicate 14 (rangeBar 110 100 100)) \<and>
   percentK (calculateStochasticOscillator (replicate 14 (rangeBar 110 100 100)) 14 3) ! 13
     = Some 0 \<and>
   rangeHigh (map getHigh (replicate 14 (rangeBar 110 100 100))) 14 13
     \<noteq> rangeLow (map getLow (replicate 14 (rangeBar 110 100 100))) 14 13"
  by code_simp

section \<open>Cash and shares in the two simulators\<close>

text \<open>
  C1, on the failing input: \<open>runSimulation\<close> in doubles, starting capital 10000, one
  bar with close 145 and a buy signal, stop-loss 5 and take-profit 10.  \<open>qty = cash /
  price\<close> rounds to 68.96551724137932, \<open>qty * price\<close> rounds to 10000.000000000002,
  and \<open>cash -= qty * price\<close> leaves \<open>-2\<^sup>-\<^sup>3\<^sup>9\<close>, about \<open>-1.8e-12\<close>: the running cash is
  negative after the pass that buys.  The three states are the initial one, the one
  after the pass and the one after the liquidation.
\<close>

theorem runSimulation_cash_negative_in_doubles:
  "map sim_cash (simulationStates binary64 [priceBar 0 145]
                   [\<lparr>signal = ''buy_weak'', numericSignal = 1\<rparr>] 10000 5 10)
     = [10000, - (1 / 2 ^ 39), 10000] \<and>
   - (1 / 2 ^ 39) < (0::real)"
  by code_simp

text \<open>In exact arithmetic, from a non-negative capital and on positive closes, neither
  simulator lets the cash or the shares fall below 0: what breaks the invariant in
  \<open>runSimulation\<close> is the rounding of \<open>cash / price * price\<close> alone.\<close>

lemma weightOf_range: "0 \<le> weightOf sg \<and> weightOf sg \<le> 1"
  by (simp add: weightOf_def)

lemma tradingStep_nonneg:
  assumes "0 \<le> cash st" "0 \<le> shares st"
    and "index \<noteq> 0 \<longrightarrow> 0 < finitePrice (getCloseNumber row)"
  shows "0 \<le> cash (tradingStep signals initialCapital st (row, index)) \<and>
         0 \<le> shares (tradingStep signals initialCapital st (row, index))"
proof (cases "index = 0")
  case True
  then show ?thesis using assms by (simp add: tradingStep_def)
next
  case False
  define w where "w = weightOf (signalAt signals index)"
  define price where "price = finitePrice (getCloseNumber row)"
  have w: "0 \<le> w" "w \<le> 1" using weightOf_range by (simp_all add: w_def)
  have price: "0 < price" using False assms(3) by (simp add: price_def)
  have buy_cash: "0 \<le> cash st - cash st * w"
    using assms(1) w by (simp add: mult_left_le)
  have buy_shares: "0 \<le> shares st + cash st * w / price"
    using assms(1,2) w price by simp
  have sell_cash: "0 \<le> cash st + shares st * w * price"
    using assms(1,2) w price by simp
  have sell_shares: "0 \<le> shares st - shares st * w"
    using assms(2) w by (simp add: mult_left_le)
  show ?thesis
    using False buy_cash buy_shares sell_cash sell_shares assms(1,2)
    by (simp add: tradingStep_def Let_def w_def price_def)
qed

lemma stopOrTarget_nonneg:
  assumes "0 \<le> sim_cash st" "0 \<le> sim_shares st" "0 \<le> price"
  shows "0 \<le> sim_cash (stopOrTarget (\<lambda>x. x) sl tp row price st) \<and>
         0 \<le> sim_shares (stopOrTarget (\<lambda>x. x) sl tp row price st)"
  using assms by (simp add: stopOrTarget_def proceeds_def Let_def)

lemma enterOrExit_nonneg:
  assumes "0 \<le> sim_cash st" "0 \<le> sim_shares st" "0 \<le> price"
  shows "0 \<le> sim_cash (enterOrExit (\<lambda>x. x) sg row price st) \<and>
         0 \<le> sim_shares (enterOrExit (\<lambda>x. x) sg row price st)"
  using assms by (auto simp: enterOrExit_def proceeds_def Let_def)

lemma simulationStep_nonneg:
  assumes "0 \<le> sim_cash st" "0 \<le> sim_shares st" "0 \<le> finitePrice (closeOrZero row)"
  shows "0 \<le> sim_cash (simulationStep (\<lambda>x. x) signals sl tp st (row, idx)) \<and>
         0 \<le> sim_shares (simulationStep (\<lambda>x. x) signals sl tp st (row, idx))"
  using enterOrExit_nonneg[OF conjunct1[OF stopOrTarget_nonneg[OF assms]]
                              conjunct2[OF stopOrTarget_nonneg[OF assms]] assms(3)]
  by (simp add: simulationStep_def Let_def)

lemma liquidate_nonneg:
  assumes "0 \<le> sim_cash st" "0 \<le> sim_shares st"
    and "\<forall>b \<in> set points. \<exists>c. close b = JNum c \<and> 0 < c"
  shows "0 \<le> sim_cash (liquidate (\<lambda>x. x) points st) \<and>
         0 \<le> sim_shares (liquidate (\<lambda>x. x) points st)"
proof (cases points)
  case Nil
  then show ?thesis using assms by (simp add: liquidate_def)
next
  case (Cons b bs)
  then have "last points \<in> set points" by simp
  then obtain c where "close (last points) = JNum c" "0 < c" using assms(3) by blast
  then show ?thesis using assms(1,2) Cons by (simp add: liquidate_def proceeds_def)
qed

lemma simulators_nonneg_in_exact_arithmetic:
  assumes cap: "0 \<le> capital"
    and closes: "\<forall>b \<in> set points. \<exists>c. close b = JNum c \<and> 0 < c"
  shows "(\<forall>st \<in> set (tradingStates points signals capital). 0 \<le> cash st \<and> 0 \<le> shares st) \<and>
         (\<forall>st \<in> set (simulationStates (\<lambda>x. x) points signals capital stopLossPct takeProfitPct).
             0 \<le> sim_cash st \<and> 0 \<le> sim_shares st)"
proof
  have row: "\<exists>c. close row = JNum c \<and> 0 < c"
    if "(row, i) \<in> set (zip points [0..<length points])" for row i
    using that closes by (auto dest: set_zip_leftD)
  show "\<forall>st \<in> set (tradingStates points signals capital). 0 \<le> cash st \<and> 0 \<le> shares st"
    unfolding tradingStates_def
  proof (rule states_invariant[where P = "\<lambda>st::tstate. 0 \<le> cash st \<and> 0 \<le> shares st"])
    show "0 \<le> cash \<lparr>cash = capital, shares = 0, position = 0, portfolio = []\<rparr> \<and>
          0 \<le> shares \<lparr>cash = capital, shares = 0, position = 0, portfolio = []\<rparr>"
      using cap by simp
  next
    fix x and st :: tstate
    assume x: "x \<in> set (zip points [0..<length points])" and st: "0 \<le> cash st \<and> 0 \<le> shares st"
    obtain r i where xi: "x = (r, i)" by (cases x)
    obtain c where "close r = JNum c" "0 < c" using row x xi by blast
    then have "0 < finitePrice (getCloseNumber r)"
      by (simp add: getCloseNumber_def Number_raw_def finitePrice_def)
    then show "0 \<le> cash (tradingStep signals capital st x) \<and>
               0 \<le> shares (tradingStep signals capital st x)"
      unfolding xi using st by (intro tradingStep_nonneg) simp_all
  qed
next
  let ?init = "\<lparr>sim_cash = capital, sim_shares = 0, entryPrice = None, trades = [], equity = []\<rparr>"
  let ?loop = "states (simulationStep (\<lambda>x. x) signals stopLossPct takeProfitPct) ?init
                 (zip points [0..<length points])"
  have row: "\<exists>c. close row = JNum c \<and> 0 < c"
    if "(row, i) \<in> set (zip points [0..<length points])" for row i
    using that closes by (auto dest: set_zip_leftD)
  have loop: "\<forall>st \<in> set ?loop. 0 \<le> sim_cash st \<and> 0 \<le> sim_shares st"
  proof (rule states_invariant[where P = "\<lambda>st::sstate. 0 \<le> sim_cash st \<and> 0 \<le> sim_shares st"])
    show "0 \<le> sim_cash ?init \<and> 0 \<le> sim_shares ?init" using cap by simp
  next
    fix x and st :: sstate
    assume x: "x \<in> set (zip points [0..<length points])"
      and st: "0 \<le> sim_cash st \<and> 0 \<le> sim_shares st"
    obtain r i where xi: "x = (r, i)" by (cases x)
    obtain c where "close r = JNum c" "0 < c" using row x xi by blast
    then have "0 \<le> finitePrice (closeOrZero r)"
      by (simp add: closeOrZero_def Number_raw_def finitePrice_def)
    then show "0 \<le> sim_cash (simulationStep (\<lambda>x. x) signals stopLossPct takeProfitPct st x) \<and>
               0 \<le> sim_shares (simulationStep (\<lambda>x. x) signals stopLossPct takeProfitPct st x)"
      unfolding xi using st by (intro simulationStep_nonneg) simp_all
  qed
  have "last ?loop \<in> set ?loop" by (rule last_states_in)
  with loop have "0 \<le> sim_cash (last ?loop) \<and> 0 \<le> sim_shares (last ?loop)" by blast
  then have "0 \<le> sim_cash (liquidate (\<lambda>x. x) points (last ?loop)) \<and>
             0 \<le> sim_shares (liquidate (\<lambda>x. x) points (last ?loop))"
    using closes by (intro liquidate_nonneg) simp_all
  with loop show "\<forall>st \<in> set (simulationStates (\<lambda>x. x) points signals capital stopLossPct
                                takeProfitPct).
             0 \<le> sim_cash st \<and> 0 \<le> sim_shares st"
    by (simp add: simulationStates_def Let_def)
qed

section \<open>The forecast\<close>

lemma finiteOnly_empty: "finiteOnly vs = [] \<longleftrightarrow> (\<forall>v \<in> set vs. v = None)"
  by (induction vs rule: finiteOnly.induct) simp_all

lemma pushPredictions_returns:
  assumes "\<forall>i \<in> set is. validDay (x + int i)"
  shows "\<exists>ps. pushPredictions projected (Some x) is = Inr ps \<and> length ps = length is"
  using assms by (induction "is") (auto simp: formatISO_def addDays_def)

lemma dayIndices_nat: "dayIndices (real days) = [1..<Suc days]"
  by (simp add: dayIndices_def)

lemma forecast_returns:
  assumes "validDay d" "validDay (d + int days)"
  shows "\<exists>ps. pushPredictions projected (newDate d) (dayIndices (real days)) = Inr ps \<and>
              length ps = days"
proof -
  have "\<forall>i \<in> set [1..<Suc days]. validDay (d + int i)"
    using assms by (auto simp: validDay_def)
  from pushPredictions_returns[OF this, of projected] assms(1) show ?thesis
    by (simp add: dayIndices_nat newDate_def del: upt_Suc)
qed

lemma predictFuturePrices_returns:
  assumes "\<exists>row \<in> set points. getCloseNumber row \<noteq> None"
    and "model = ''simple'' \<or> model = ''arima'' \<or> model = ''prophet''"
    and "validDay (date (last points))" "validDay (date (last points) + int days)"
  shows "\<exists>ps. predictFuturePrices points indicator model (real days) = Inr ps \<and>
              length ps = days"
proof -
  have ne: "finiteOnly (map getCloseNumber points) \<noteq> []"
    using assms(1) by (auto simp: finiteOnly_empty)
  show ?thesis
    using assms(2) ne forecast_returns[OF assms(3,4)]
    by (auto simp: predictFuturePrices_def Let_def split: prod.splits)
qed

lemma predictFuturePrices_no_close:
  assumes "\<forall>row \<in> set points. getCloseNumber row = None"
  shows "predictFuturePrices points indicator model horizon = Inr []"
proof -
  have "finiteOnly (map getCloseNumber points) = []"
    using assms by (simp add: finiteOnly_empty)
  then show ?thesis by (simp add: predictFuturePrices_def)
qed

text \<open>
  C4, as amended.  For a natural number \<open>days\<close> and every bar input that has at least
  one finite close and whose last date and last date plus \<open>days\<close> are days of the range
  of \<open>Date\<close>, \<open>predictFuturePrices\<close> returns, without raising, a forecast of length
  exactly \<open>days\<close> under each of the models \<open>simple\<close>, \<open>arima\<close> and \<open>prophet\<close>.  For every
  input without a finite close, the empty input among them, and for every model name
  outside those three, it returns the empty list without raising.
\<close>

theorem predictFuturePrices_length:
  "((\<exists>row \<in> set points. getCloseNumber row \<noteq> None) \<and>
    model \<in> {''simple'', ''arima'', ''prophet''} \<and>
    validDay (date (last points)) \<and> validDay (date (last points) + int days) \<longrightarrow>
      (\<exists>ps. predictFuturePrices points indicator model (real days) = Inr ps \<and>
            length ps = days)) \<and>
   ((\<forall>row \<in> set points. getCloseNumber row = None) \<longrightarrow>
      predictFuturePrices points indicator model horizon = Inr []) \<and>
   predictFuturePrices [] indicator model horizon = Inr [] \<and>
   (model \<notin> {''simple'', ''arima'', ''prophet''} \<longrightarrow>
      predictFuturePrices points indicator model horizon = Inr [])"
proof (intro conjI impI)
  assume a: "(\<exists>row \<in> set points. getCloseNumber row \<noteq> None) \<and>
    model \<in> {''simple'', ''arima'', ''prophet''} \<and>
    validDay (date (last points)) \<and> validDay (date (last points) + int days)"
  then have "model = ''simple'' \<or> model = ''arima'' \<or> model = ''prophet''" by blast
  with a show "\<exists>ps. predictFuturePrices points indicator model (real days) = Inr ps \<and>
                    length ps = days"
    by (intro predictFuturePrices_returns) simp_all
next
  assume "\<forall>row \<in> set points. getCloseNumber row = None"
  then show "predictFuturePrices points indicator model horizon = Inr []"
    by (rule predictFuturePrices_no_close)
next
  show "predictFuturePrices [] indicator model horizon = Inr []"
    by (simp add: predictFuturePrices_def)
next
  assume "model \<notin> {''simple'', ''arima'', ''prophet''}"
  then show "predictFuturePrices points indicator model horizon = Inr []"
    by (simp add: predictFuturePrices_def Let_def)
qed

theorem predictFuturePrices_length_witness:
  "(\<exists>ps. predictFuturePrices [priceBar 0 100] ''sma'' ''simple'' 3 = Inr ps \<and> length ps = 3) \<and>
   (\<exists>ps. predictFuturePrices [priceBar 0 100] ''sma'' ''arima'' 3 = Inr ps \<and> length ps = 3) \<and>
   (\<exists>ps. predictFuturePrices [priceBar 0 100] ''sma'' ''prophet'' 3 = Inr ps \<and> length ps = 3) \<and>
   predictFuturePrices [missingCloseBar 0] ''sma'' ''arima'' 3 = Inr [] \<and>
   predictFuturePrices [priceBar 0 100] ''sma'' ''lstm'' 3 = Inr []"
proof -
  have bar: "\<exists>row \<in> set [priceBar 0 100]. getCloseNumber row \<noteq> None"
    by (simp add: priceBar_def getCloseNumber_def Number_raw_def)
  have missing: "\<forall>row \<in> set [missingCloseBar 0]. getCloseNumber row = None"
    by (simp add: missingCloseBar_def getCloseNumber_def Number_raw_def)
  have days: "validDay (date (last [priceBar 0 100]))"
    "validDay (date (last [priceBar 0 100]) + int 3)"
    by (simp_all add: priceBar_def validDay_def)
  show ?thesis
    using predictFuturePrices_length
            [where points = "[priceBar 0 100]" and model = "''simple''" and days = 3
               and indicator = "''sma''"]
          predictFuturePrices_length
            [where points = "[priceBar 0 100]" and model = "''arima''" and days = 3
               and indicator = "''sma''"]
          predictFuturePrices_length
            [where points = "[priceBar 0 100]" and model = "''prophet''" and days = 3
               and indicator = "''sma''"]
          predictFuturePrices_length
            [where points = "[missingCloseBar 0]" and model = "''arima''" and horizon = 3
               and indicator = "''sma''"]
          predictFuturePrices_length
            [where points = "[priceBar 0 100]" and model = "''lstm''" and horizon = 3
               and indicator = "''sma''"]
          bar missing days
    by simp
qed

text \<open>One bar whose close is missing: the input is not empty, the model is \<open>simple\<close>,
  three days are asked for, and the forecast is empty.  One bar with a finite close
  whose date does not parse: the call raises.\<close>

theorem predictFuturePrices_empty_or_raising:
  "predictFuturePrices [missingCloseBar 0] ''sma'' ''simple'' 3 = Inr [] \<and>
   predictFuturePrices [priceBar 100000001 100] ''sma'' ''simple'' 3 = Inl RangeError"
  by code_simp

section \<open>Signals for an unknown indicator\<close>

text \<open>
  C10.  For every bar sequence and every indicator name outside \<open>sma\<close>, \<open>rsi\<close>,
  \<open>macd\<close>, \<open>bollinger\<close> and \<open>stochastic\<close>, \<open>backtestStrategy\<close> returns a signal list of
  the length of the input whose every entry is \<open>{signal: 'hold', numericSignal: 0}\<close>,
  together with the empty context.
\<close>

theorem backtestStrategy_unknown_indicator:
  "indicator \<notin> {''sma'', ''rsi'', ''macd'', ''bollinger'', ''stochastic''} \<Longrightarrow>
   backtestStrategy points indicator =
     (replicate (length points) \<lparr>signal = ''hold'', numericSignal = 0\<rparr>, CtxEmpty)"
  by (simp add: backtestStrategy_def Let_def map_replicate_const)

theorem backtestStrategy_unknown_indicator_witness:
  "backtestStrategy (linearBars 100 3) ''ema'' =
     ([\<lparr>signal = ''hold'', numericSignal = 0\<rparr>, \<lparr>signal = ''hold'', numericSignal = 0\<rparr>,
       \<lparr>signal = ''hold'', numericSignal = 0\<rparr>], CtxEmpty)"
  using backtestStrategy_unknown_indicator [of "''ema''" "linearBars 100 3"]
  by (simp add: linearBars_def numeral_3_eq_3)

section \<open>The insights route and the starting capital\<close>

lemma signal_loop_none:
  assumes "\<And>i. i < length signals \<Longrightarrow> body i = None"
  shows "signal_loop body from signals = signals"
proof -
  have "foldl (\<lambda>acc i. case body i of None \<Rightarrow> acc | Some s \<Rightarrow> acc[i := s]) acc is = acc"
    if "\<forall>i \<in> set is. body i = None" for acc :: "signal_entry list" and "is"
    using that by (induction "is" arbitrary: acc) simp_all
  then show ?thesis using assms by (simp add: signal_loop_def)
qed

lemma backtestStrategy_sma_short:
  assumes "length points < 20"
  shows "fst (backtestStrategy points ''sma'')
           = replicate (length points) \<lparr>signal = ''hold'', numericSignal = 0\<rparr>"
proof -
  have sma: "calculateSMA points 20 = replicate (length points) None"
    using assms by (simp add: calculateSMA_short)
  have "signal_loop (sma_signal (replicate (length points) None) closes) 1
          (replicate (length points) \<lparr>signal = ''hold'', numericSignal = 0\<rparr>)
        = replicate (length points) \<lparr>signal = ''hold'', numericSignal = 0\<rparr>" for closes
    by (rule signal_loop_none) (simp add: sma_signal_def)
  then show ?thesis by (simp add: backtestStrategy_def Let_def sma map_replicate_const)
qed

text \<open>Whatever number the capital parameter denotes, the route answers with the payload
  of a simulation run on that number, provided the forecast does not raise.\<close>

lemma insights_route_any_capital:
  assumes "ticker \<noteq> []" "fetched \<noteq> []" "t \<noteq> []"
    and "predictFuturePrices fetched ''sma'' ''simple'' 60 = Inr forecast"
  shows "\<exists>payload. insights_route toNum fetched mock (insightsQuery ticker t) = Inr payload \<and>
           sum_initialCapital (ins_summary payload) = toNum t \<and>
           ins_signals payload = fst (backtestStrategy fetched ''sma'') \<and>
           ins_simulation payload = runTradingSimulation fetched (ins_signals payload) (toNum t)"
  using assms
  by (simp add: insights_route_def computeSignals_def insightsQuery_def present_def Let_def)

text \<open>The capital check of the advanced lab, which the route has no counterpart of.\<close>

lemma handleRun_capital_rejects:
  "c \<le> 0 \<Longrightarrow> handleRun_capital c = Inl ''Initial capital must be greater than zero.''"
  by (simp add: handleRun_capital_def Let_def)

text \<open>
  C9, on the failing input: \<open>GET /insights?symbol=AAPL&initialCapital=-5\<close> on a history
  of three bars, with \<open>Number('-5') = -5\<close>.  The route answers with a payload, not an
  error; the summary reports the capital \<open>-5\<close> and the simulation was run on it.
\<close>

theorem insights_route_runs_negative_capital:
  "\<exists>payload. insights_route (\<lambda>t. if t = ''-5'' then - 5 else 0) (linearBars 100 3) []
                (insightsQuery ''AAPL'' ''-5'') = Inr payload \<and>
     sum_initialCapital (ins_summary payload) = - 5 \<and>
     map sp_value (ins_simulation payload) = [- 5, - 5, - 5]"
proof -
  have sim: "map sp_value (runTradingSimulation (linearBars 100 3)
               (replicate 3 \<lparr>signal = ''hold'', numericSignal = 0\<rparr>) (- 5)) = [- 5, - 5, - 5]"
    by code_simp
  have len: "length (linearBars 100 3) = 3" by (simp add: linearBars_def)
  have "case predictFuturePrices (linearBars 100 3) ''sma'' ''simple'' 60 of
          Inl e \<Rightarrow> False | Inr forecast \<Rightarrow> True"
    by code_simp
  then obtain forecast where
    "predictFuturePrices (linearBars 100 3) ''sma'' ''simple'' 60 = Inr forecast"
    by (auto split: sum.splits)
  then obtain payload where p:
     "insights_route (\<lambda>t. if t = ''-5'' then - 5 else 0) (linearBars 100 3) []
        (insightsQuery ''AAPL'' ''-5'') = Inr payload"
     "sum_initialCapital (ins_summary payload) = - 5"
     "ins_signals payload = fst (backtestStrategy (linearBars 100 3) ''sma'')"
     "ins_simulation payload = runTradingSimulation (linearBars 100 3) (ins_signals payload) (- 5)"
    using insights_route_any_capital[of "''AAPL''" "linearBars 100 3" "''-5''" forecast
             "\<lambda>t. if t = ''-5'' then - 5 else 0" "[]"]
    by (auto simp: linearBars_def)
  have "ins_signals payload = replicate 3 \<lparr>signal = ''hold'', numericSignal = 0\<rparr>"
    using p(3) backtestStrategy_sma_short[of "linearBars 100 3"] len by simp
  then show ?thesis using p sim by auto
qed


end
